theory Spec2Isabelle
  imports Complex_Main "HOL-Library.AList"
begin

section \<open>Conventions\<close>

text \<open>
  The development embeds four modules of the maritime simulator: the channel simulator
  (\<^verbatim>\<open>scenario_controller.py\<close>), the AIS ingest client (\<^verbatim>\<open>ais_client.py\<close>), and the ticks
  of the corridor simulator (\<^verbatim>\<open>simulation_smr.py\<close>) and of the waypoint-route simulator
  (\<^verbatim>\<open>simulation_ammonia.py\<close>).

  Python \<^verbatim>\<open>float\<close> values are embedded as \<^typ>\<open>real\<close>: rounding, infinities and NaN are
  idealised away. Python \<^verbatim>\<open>int\<close> values are \<^typ>\<open>int\<close>, and \<^typ>\<open>nat\<close> for an index or a
  counter that starts at 0 and is only incremented or reset. A \<^verbatim>\<open>datetime\<close> is a \<^typ>\<open>real\<close>
  number of seconds, so that \<^verbatim>\<open>timedelta(seconds=d)\<close> is addition of \<open>d\<close> and
  \<^verbatim>\<open>total_seconds()\<close> is the identity. Every read of a random generator or of the clock is
  an explicit argument of the function that performs it. Exceptions are values of
  \<open>py_error\<close>, returned on the left of a sum.
\<close>

datatype py_error = IndexError | TypeError | ValueError | ZeroDivisionError

definition py_truediv :: "real \<Rightarrow> real \<Rightarrow> py_error + real" where
  "py_truediv a b = (if b = 0 then Inl ZeroDivisionError else Inr (a / b))"

text \<open>Python's \<^verbatim>\<open>x % m\<close> on floats: the result has the sign of the divisor.\<close>

definition py_fmod :: "real \<Rightarrow> real \<Rightarrow> real" where
  "py_fmod x m = x - m * of_int \<lfloor>x / m\<rfloor>"

section \<open>Channel simulator (\<^verbatim>\<open>scenario_controller.py\<close>)\<close>

datatype CommunicationType = AIS_TERRESTRIAL | VSAT | LEO_SATELLITE

datatype SeaState = CALM | SMOOTH | SLIGHT | MODERATE | ROUGH | VERY_ROUGH | HIGH

record CommunicationProfile =
  comm_type :: CommunicationType
  latency_mean_ms :: real
  latency_std_ms :: real
  packet_loss_good_state :: real
  packet_loss_bad_state :: real
  prob_good_to_bad :: real
  prob_bad_to_good :: real
  normal_update_interval_sec :: int
  degraded_update_interval_sec :: int
  critical_update_interval_sec :: int

record ScenarioConfig =
  scenario_name :: string
  communication_profile :: CommunicationProfile
  sea_state :: SeaState
  sc_wind_speed_knots :: real
  sc_wind_direction_deg :: real
  sc_current_speed_knots :: real
  sc_current_direction_deg :: real
  degradation_level :: real
  geofence_enabled :: bool
  force_blackout :: bool
  blackout_duration_sec :: int

datatype ge_state = GOOD | BAD

record GilbertElliotModel =
  p_loss_good :: real
  p_loss_bad :: real
  p_gb :: real
  p_bg :: real
  current_state :: ge_state

definition GilbertElliotModel_init :: "real \<Rightarrow> real \<Rightarrow> real \<Rightarrow> real \<Rightarrow> GilbertElliotModel" where
  "GilbertElliotModel_init plg plb pgb pbg =
     \<lparr>p_loss_good = plg, p_loss_bad = plb, p_gb = pgb, p_bg = pbg, current_state = GOOD\<rparr>"

text \<open>
  \<^verbatim>\<open>GilbertElliotModel.step\<close>. The two calls of \<^verbatim>\<open>random.random()\<close> are the arguments
  \<open>u1\<close> (state transition) and \<open>u2\<close> (loss). The result is the loss flag and the model
  after the step.
\<close>

definition ge_step :: "real \<Rightarrow> real \<Rightarrow> GilbertElliotModel \<Rightarrow> bool \<times> GilbertElliotModel" where
  "ge_step u1 u2 g =
     (let g' = (if current_state g = GOOD
                then (if u1 < p_gb g then g\<lparr>current_state := BAD\<rparr> else g)
                else (if u1 < p_bg g then g\<lparr>current_state := GOOD\<rparr> else g))
      in (if current_state g' = GOOD then (u2 < p_loss_good g', g')
          else (u2 < p_loss_bad g', g')))"

record channel_stats =
  total_packets :: int
  lost_packets :: int
  total_delay_ms :: real
  blackout_events :: int
  total_blackout_duration_sec :: real

definition zero_stats :: channel_stats where
  "zero_stats = \<lparr>total_packets = 0, lost_packets = 0, total_delay_ms = 0,
     blackout_events = 0, total_blackout_duration_sec = 0\<rparr>"

record ScenarioController =
  config :: ScenarioConfig
  ge_model :: GilbertElliotModel
  stats :: channel_stats
  in_blackout :: bool
  blackout_start_time :: "real option"
  blackout_end_time :: "real option"
  simulation_time :: real

text \<open>\<^verbatim>\<open>ScenarioController.__init__\<close>; \<open>now\<close> is the value of \<^verbatim>\<open>datetime.utcnow()\<close>.\<close>

definition ScenarioController_init :: "ScenarioConfig \<Rightarrow> real \<Rightarrow> ScenarioController" where
  "ScenarioController_init cfg now =
     \<lparr>config = cfg,
      ge_model = GilbertElliotModel_init
        (packet_loss_good_state (communication_profile cfg))
        (packet_loss_bad_state (communication_profile cfg))
        (prob_good_to_bad (communication_profile cfg))
        (prob_bad_to_good (communication_profile cfg)),
      stats = zero_stats,
      in_blackout = False,
      blackout_start_time = None,
      blackout_end_time = None,
      simulation_time = now\<rparr>"

text \<open>The random reads of one \<^verbatim>\<open>process_transmission\<close> call, in the order they are made.\<close>

record draws =
  u_transition :: real
  u_loss :: real
  base_latency :: real

text \<open>
  The dictionary returned by \<^verbatim>\<open>process_transmission\<close>:
  \<open>Blackout_Failure\<close> is \<^verbatim>\<open>{'success': False, 'reason': 'BLACKOUT', ...}\<close>,
  \<open>Packet_Loss st\<close> is \<^verbatim>\<open>{'success': False, 'reason': 'PACKET_LOSS', 'channel_state': st}\<close>,
  \<open>Delivered lat st sea deg\<close> is the success dictionary with its latency, channel state,
  sea-state impact and degradation impact.
\<close>

datatype transmission_result =
    Blackout_Failure
  | Packet_Loss ge_state
  | Delivered real ge_state real real

definition sea_state_factors :: "SeaState \<Rightarrow> real" where
  "sea_state_factors s =
     (case s of CALM \<Rightarrow> 0 | SMOOTH \<Rightarrow> 0.05 | SLIGHT \<Rightarrow> 0.10 | MODERATE \<Rightarrow> 0.20
      | ROUGH \<Rightarrow> 0.40 | VERY_ROUGH \<Rightarrow> 0.70 | HIGH \<Rightarrow> 1.20)"

definition calculate_sea_state_impact :: "ScenarioController \<Rightarrow> real" where
  "calculate_sea_state_impact s =
     latency_mean_ms (communication_profile (config s)) * sea_state_factors (sea_state (config s))"

text \<open>Sections 2 to 4 of \<^verbatim>\<open>process_transmission\<close>: the Gilbert-Elliott step and the latency.\<close>

definition transmit_channel :: "draws \<Rightarrow> ScenarioController \<Rightarrow> transmission_result \<times> ScenarioController" where
  "transmit_channel d s =
     (let degradation_factor = 1 + degradation_level (config s) * 2;
          original_p_loss_good = p_loss_good (ge_model s);
          original_p_loss_bad = p_loss_bad (ge_model s);
          g1 = (ge_model s)\<lparr>p_loss_good := min (original_p_loss_good * degradation_factor) 0.5,
                             p_loss_bad := min (original_p_loss_bad * degradation_factor) 0.9\<rparr>;
          (packet_lost, g2) = ge_step (u_transition d) (u_loss d) g1;
          g3 = g2\<lparr>p_loss_good := original_p_loss_good, p_loss_bad := original_p_loss_bad\<rparr>;
          s1 = s\<lparr>ge_model := g3\<rparr>
      in if packet_lost
         then (Packet_Loss (current_state g3),
               s1\<lparr>stats := (stats s1)\<lparr>lost_packets := lost_packets (stats s1) + 1\<rparr>\<rparr>)
         else
           (let sea_state_latency = calculate_sea_state_impact s1;
                degradation_latency =
                  latency_mean_ms (communication_profile (config s1)) * degradation_level (config s1) * 0.5;
                total_latency = max 0 (base_latency d + sea_state_latency + degradation_latency)
            in (Delivered total_latency (current_state g3) sea_state_latency degradation_latency,
                s1\<lparr>stats := (stats s1)\<lparr>total_delay_ms := total_delay_ms (stats s1) + total_latency\<rparr>\<rparr>)))"

text \<open>
  \<^verbatim>\<open>process_transmission\<close>. Comparing or subtracting a \<^verbatim>\<open>None\<close> time raises
  \<^verbatim>\<open>TypeError\<close>.
\<close>

definition process_transmission ::
  "real option \<Rightarrow> draws \<Rightarrow> ScenarioController \<Rightarrow> py_error + (transmission_result \<times> ScenarioController)" where
  "process_transmission current_time d s =
     (let s1 = (case current_time of None \<Rightarrow> s | Some t \<Rightarrow> s\<lparr>simulation_time := t\<rparr>);
          s2 = s1\<lparr>stats := (stats s1)\<lparr>total_packets := total_packets (stats s1) + 1\<rparr>\<rparr>;
          s3 = (if force_blackout (config s2) \<and> \<not> in_blackout s2
                then s2\<lparr>in_blackout := True,
                        blackout_start_time := Some (simulation_time s2),
                        blackout_end_time := Some (simulation_time s2 + of_int (blackout_duration_sec (config s2))),
                        stats := (stats s2)\<lparr>blackout_events := blackout_events (stats s2) + 1\<rparr>\<rparr>
                else s2)
      in if in_blackout s3
         then (case blackout_end_time s3 of
                 None \<Rightarrow> Inl TypeError
               | Some e \<Rightarrow>
                   if simulation_time s3 \<ge> e
                   then (case blackout_start_time s3 of
                           None \<Rightarrow> Inl TypeError
                         | Some b \<Rightarrow>
                             Inr (transmit_channel d
                               (s3\<lparr>stats := (stats s3)\<lparr>total_blackout_duration_sec :=
                                       total_blackout_duration_sec (stats s3) + (e - b)\<rparr>,
                                    in_blackout := False,
                                    blackout_start_time := None,
                                    blackout_end_time := None\<rparr>)))
                   else Inr (Blackout_Failure,
                             s3\<lparr>stats := (stats s3)\<lparr>lost_packets := lost_packets (stats s3) + 1\<rparr>\<rparr>))
         else Inr (transmit_channel d s3))"

definition calculate_reliability_index :: "ScenarioController \<Rightarrow> py_error + real" where
  "calculate_reliability_index s =
     (if total_packets (stats s) = 0 then Inr 100
      else
        (let successful_packets = total_packets (stats s) - lost_packets (stats s)
         in case py_truediv (of_int successful_packets) (of_int (total_packets (stats s))) of
              Inl e \<Rightarrow> Inl e
            | Inr q \<Rightarrow> Inr (q * 100)))"

definition calculate_average_latency :: "ScenarioController \<Rightarrow> py_error + real" where
  "calculate_average_latency s =
     (let successful_packets = total_packets (stats s) - lost_packets (stats s)
      in if successful_packets = 0 then Inr 0
         else py_truediv (total_delay_ms (stats s)) (of_int successful_packets))"

definition reset_statistics :: "ScenarioController \<Rightarrow> ScenarioController" where
  "reset_statistics s = s\<lparr>stats := zero_stats\<rparr>"

text \<open>
  A history of the channel simulator: calls of \<^verbatim>\<open>process_transmission\<close> and
  \<^verbatim>\<open>reset_statistics\<close>, and assignments to the public \<^verbatim>\<open>config\<close> attribute (the dashboard
  overwrites \<^verbatim>\<open>config.degradation_level\<close>) between them. The first exception ends the run.
\<close>

datatype channel_op = Transmit "real option" draws | Reset | Configure ScenarioConfig

fun run_channel :: "channel_op list \<Rightarrow> ScenarioController \<Rightarrow> py_error + ScenarioController" where
  "run_channel [] s = Inr s"
| "run_channel (Transmit t d # ops) s =
     (case process_transmission t d s of Inl e \<Rightarrow> Inl e | Inr (r, s') \<Rightarrow> run_channel ops s')"
| "run_channel (Reset # ops) s = run_channel ops (reset_statistics s)"
| "run_channel (Configure cfg # ops) s = run_channel ops (s\<lparr>config := cfg\<rparr>)"

text \<open>Two of the predefined profiles and scenarios of the module.\<close>

definition get_ais_terrestrial :: CommunicationProfile where
  "get_ais_terrestrial =
     \<lparr>comm_type = AIS_TERRESTRIAL, latency_mean_ms = 2000, latency_std_ms = 500,
      packet_loss_good_state = 0.01, packet_loss_bad_state = 0.30,
      prob_good_to_bad = 0.05, prob_bad_to_good = 0.15,
      normal_update_interval_sec = 10, degraded_update_interval_sec = 30,
      critical_update_interval_sec = 120\<rparr>"

definition get_vsat :: CommunicationProfile where
  "get_vsat =
     \<lparr>comm_type = VSAT, latency_mean_ms = 500, latency_std_ms = 100,
      packet_loss_good_state = 0.005, packet_loss_bad_state = 0.20,
      prob_good_to_bad = 0.03, prob_bad_to_good = 0.20,
      normal_update_interval_sec = 5, degraded_update_interval_sec = 20,
      critical_update_interval_sec = 60\<rparr>"

definition create_scenario_normal_conditions :: ScenarioConfig where
  "create_scenario_normal_conditions =
     \<lparr>scenario_name = ''Normal Conditions'', communication_profile = get_vsat,
      sea_state = MODERATE,
      sc_wind_speed_knots = 15, sc_wind_direction_deg = 270,
      sc_current_speed_knots = 1, sc_current_direction_deg = 180,
      degradation_level = 0, geofence_enabled = True,
      force_blackout = False, blackout_duration_sec = 300\<rparr>"

definition create_scenario_critical_failure :: ScenarioConfig where
  "create_scenario_critical_failure =
     \<lparr>scenario_name = ''Critical Communication Failure'',
      communication_profile = get_ais_terrestrial,
      sea_state = HIGH,
      sc_wind_speed_knots = 15, sc_wind_direction_deg = 270,
      sc_current_speed_knots = 1, sc_current_direction_deg = 180,
      degradation_level = 0.9, geofence_enabled = True,
      force_blackout = True, blackout_duration_sec = 600\<rparr>"

text \<open>Concrete random reads: a delivered packet, and a packet lost in the good state.\<close>

definition quiet_draws :: draws where
  "quiet_draws = \<lparr>u_transition = 0.5, u_loss = 0.5, base_latency = 500\<rparr>"

definition lossy_draws :: draws where
  "lossy_draws = \<lparr>u_transition = 0.5, u_loss = 0.001, base_latency = 500\<rparr>"

text \<open>
  The invariant of the counters and of the blackout window, and the same with one
  packet counted but not yet decided (the state in the middle of a call).
\<close>

definition chan_inv :: "ScenarioController \<Rightarrow> bool" where
  "chan_inv s \<longleftrightarrow> 0 \<le> lost_packets (stats s) \<and> lost_packets (stats s) \<le> total_packets (stats s)
     \<and> (in_blackout s \<longrightarrow> blackout_start_time s \<noteq> None \<and> blackout_end_time s \<noteq> None)"

definition chan_pre :: "ScenarioController \<Rightarrow> bool" where
  "chan_pre x \<longleftrightarrow> 0 \<le> lost_packets (stats x) \<and> lost_packets (stats x) < total_packets (stats x)
     \<and> (in_blackout x \<longrightarrow> blackout_start_time x \<noteq> None \<and> blackout_end_time x \<noteq> None)"

section \<open>AIS ingest client (\<^verbatim>\<open>ais_client.py\<close>)\<close>

text \<open>The dataclass \<^verbatim>\<open>VesselState\<close>; \<open>vessel_length\<close> and \<open>vessel_width\<close> are its
  fields \<^verbatim>\<open>length\<close> and \<^verbatim>\<open>width\<close>.\<close>

record VesselState =
  mmsi :: string
  vessel_name :: string
  vessel_type :: string
  latitude :: real
  longitude :: real
  course :: real
  speed :: real
  heading :: "real option"
  timestamp :: real
  position_accuracy :: int
  vessel_length :: "real option"
  vessel_width :: "real option"
  draught :: "real option"
  destination :: "string option"
  eta :: "real option"
  nav_status :: "int option"
  is_simulated :: bool
  data_source :: string

text \<open>
  A parsed \<^verbatim>\<open>PositionReport\<close> envelope. \<open>MMSI\<close> and \<open>ShipName\<close> are the keys of
  \<^verbatim>\<open>MetaData\<close>, the other fields the keys of \<^verbatim>\<open>Message.PositionReport\<close>; \<open>None\<close> is an
  absent key. \<open>MMSI\<close> holds the text that \<^verbatim>\<open>str\<close> makes of the value.
\<close>

record PositionReport =
  MMSI :: "string option"
  ShipName :: "string option"
  Type :: "int option"
  Latitude :: "real option"
  Longitude :: "real option"
  Cog :: "real option"
  Sog :: "real option"
  TrueHeading :: "real option"
  NavigationalStatus :: "int option"
  PositionAccuracy :: "int option"

record ingest_stats =
  messages_received :: int
  messages_filtered :: int
  parse_errors :: int
  last_update :: "real option"

text \<open>
  The client object. The cache is a Python dictionary, kept as an association list in
  insertion order. The queue holds references to the vessel objects of the cache; an
  object is created once per MMSI and never replaced, so a reference is the MMSI it was
  created for. \<open>max_queue_size\<close> is the \<^verbatim>\<open>maxsize\<close> of the \<^verbatim>\<open>Queue\<close>. A callback returns
  \<open>True\<close> when it returns normally and \<open>False\<close> when it raises.
\<close>

record AISStreamClient =
  autonomous_mmsi_set :: "string list"
  use_ship_type_fallback :: bool
  max_vessels :: int
  message_callback :: "(VesselState \<Rightarrow> bool) option"
  max_queue_size :: int
  message_queue :: "string list"
  is_connected :: bool
  reconnect_attempts :: nat
  max_reconnect_attempts :: nat
  vessel_cache :: "(string \<times> VesselState) list"
  ais_stats :: ingest_stats
  running :: bool

definition AUTONOMOUS_SHIP_MMSI_LIST :: "string list" where
  "AUTONOMOUS_SHIP_MMSI_LIST =
     [''257646000'', ''259005610'', ''258022650'', ''352986205'', ''440326000'']"

definition AUTONOMOUS_SHIP_TYPES :: "int list" where
  "AUTONOMOUS_SHIP_TYPES = [70, 71, 72, 73, 74, 75, 76, 77, 78, 79,
                            80, 81, 82, 83, 84, 85, 86, 87, 88, 89]"

definition AISStreamClient_init ::
  "(VesselState \<Rightarrow> bool) option \<Rightarrow> int \<Rightarrow> int \<Rightarrow> bool \<Rightarrow> AISStreamClient" where
  "AISStreamClient_init callback max_queue max_v fallback =
     \<lparr>autonomous_mmsi_set = AUTONOMOUS_SHIP_MMSI_LIST,
      use_ship_type_fallback = fallback,
      max_vessels = max_v,
      message_callback = callback,
      max_queue_size = max_queue,
      message_queue = [],
      is_connected = False,
      reconnect_attempts = 0,
      max_reconnect_attempts = 10,
      vessel_cache = [],
      ais_stats = \<lparr>messages_received = 0, messages_filtered = 0, parse_errors = 0,
                   last_update = None\<rparr>,
      running = False\<rparr>"

text \<open>\<^verbatim>\<open>str.strip()\<close> on the ASCII white space characters.\<close>

definition py_isspace :: "char \<Rightarrow> bool" where
  "py_isspace ch = (let n = (of_char ch :: nat) in (9 \<le> n \<and> n \<le> 13) \<or> (28 \<le> n \<and> n \<le> 32))"

definition py_strip :: "string \<Rightarrow> string" where
  "py_strip s = rev (dropWhile py_isspace (rev (dropWhile py_isspace s)))"

text \<open>\<^verbatim>\<open>Queue.full()\<close>: a queue with \<^verbatim>\<open>maxsize <= 0\<close> is unbounded.\<close>

definition queue_full :: "AISStreamClient \<Rightarrow> bool" where
  "queue_full c = (0 < max_queue_size c \<and> max_queue_size c \<le> int (length (message_queue c)))"

text \<open>The enqueue of \<^verbatim>\<open>_handle_position_report\<close>: \<^verbatim>\<open>put\<close>, or \<^verbatim>\<open>get\<close> then \<^verbatim>\<open>put\<close>.\<close>

definition enqueue :: "string \<Rightarrow> AISStreamClient \<Rightarrow> AISStreamClient" where
  "enqueue ref c =
     (if \<not> queue_full c then c\<lparr>message_queue := message_queue c @ [ref]\<rparr>
      else c\<lparr>message_queue := tl (message_queue c) @ [ref]\<rparr>)"

definition count_filtered :: "AISStreamClient \<Rightarrow> AISStreamClient" where
  "count_filtered c =
     c\<lparr>ais_stats := (ais_stats c)\<lparr>messages_filtered := messages_filtered (ais_stats c) + 1\<rparr>\<rparr>"

text \<open>The three reads of \<^verbatim>\<open>datetime.utcnow()\<close> that one position report can make.\<close>

record clock_reads =
  t_created :: real
  t_updated :: real
  t_stats :: real

definition report_mmsi :: "PositionReport \<Rightarrow> string" where
  "report_mmsi r = (case MMSI r of None \<Rightarrow> [] | Some m \<Rightarrow> m)"

definition is_autonomous :: "AISStreamClient \<Rightarrow> PositionReport \<Rightarrow> bool" where
  "is_autonomous c r = (report_mmsi r \<in> set (autonomous_mmsi_set c))"

definition is_cargo_tanker_type :: "AISStreamClient \<Rightarrow> PositionReport \<Rightarrow> bool" where
  "is_cargo_tanker_type c r =
     (if use_ship_type_fallback c
      then (case Type r of None \<Rightarrow> 0 | Some t \<Rightarrow> t) \<in> set AUTONOMOUS_SHIP_TYPES
      else False)"

text \<open>The record that the handler creates for an MMSI it has not seen.\<close>

definition new_vessel :: "clock_reads \<Rightarrow> AISStreamClient \<Rightarrow> PositionReport \<Rightarrow> VesselState" where
  "new_vessel clk c r =
     \<lparr>mmsi = report_mmsi r,
      vessel_name = py_strip (case ShipName r of None \<Rightarrow> ''Unknown-'' @ report_mmsi r | Some n \<Rightarrow> n),
      vessel_type = (if is_autonomous c r then ''Autonomous Ship'' else ''Cargo/Tanker''),
      latitude = 0, longitude = 0, course = 0, speed = 0,
      heading = None,
      timestamp = t_created clk,
      position_accuracy = 1,
      vessel_length = None, vessel_width = None, draught = None,
      destination = None, eta = None, nav_status = None,
      is_simulated = False,
      data_source = ''AIS''\<rparr>"

text \<open>
  The first part of the update in \<^verbatim>\<open>_handle_position_report\<close>: the vessel object of the
  MMSI is taken from the cache, or created and stored in the cache at once.
\<close>

definition lookup_or_create ::
  "clock_reads \<Rightarrow> PositionReport \<Rightarrow> AISStreamClient \<Rightarrow> VesselState \<times> AISStreamClient" where
  "lookup_or_create clk r c =
     (case map_of (vessel_cache c) (report_mmsi r) of
        Some v \<Rightarrow> (v, c)
      | None \<Rightarrow> (new_vessel clk c r,
                 c\<lparr>vessel_cache := vessel_cache c @ [(report_mmsi r, new_vessel clk c r)]\<rparr>))"

text \<open>\<^verbatim>\<open>new_latitude\<close> and \<^verbatim>\<open>new_longitude\<close>.\<close>

definition new_position :: "PositionReport \<Rightarrow> VesselState \<Rightarrow> real \<times> real" where
  "new_position r vessel =
     ((case Latitude r of None \<Rightarrow> latitude vessel | Some x \<Rightarrow> x),
      (case Longitude r of None \<Rightarrow> longitude vessel | Some x \<Rightarrow> x))"

text \<open>
  The last part: the fields of the vessel object are overwritten (the object is in the
  cache, so the cache entry changes), the object is enqueued, the callback runs, and the
  time of the update is recorded unless the callback raised.
\<close>

definition updated_vessel :: "clock_reads \<Rightarrow> PositionReport \<Rightarrow> VesselState \<Rightarrow> VesselState" where
  "updated_vessel clk r vessel =
     vessel\<lparr>latitude := fst (new_position r vessel),
            longitude := snd (new_position r vessel),
            course := (case Cog r of None \<Rightarrow> course vessel | Some x \<Rightarrow> x),
            speed := (case Sog r of None \<Rightarrow> speed vessel | Some x \<Rightarrow> x),
            heading := TrueHeading r,
            nav_status := NavigationalStatus r,
            position_accuracy := (case PositionAccuracy r of None \<Rightarrow> 1 | Some a \<Rightarrow> a),
            timestamp := t_updated clk\<rparr>"

definition publish ::
  "clock_reads \<Rightarrow> PositionReport \<Rightarrow> VesselState \<Rightarrow> AISStreamClient \<Rightarrow> AISStreamClient" where
  "publish clk r vessel c1 =
     (let vessel' = updated_vessel clk r vessel;
          c2 = c1\<lparr>vessel_cache := AList.update (report_mmsi r) vessel' (vessel_cache c1)\<rparr>;
          c3 = enqueue (report_mmsi r) c2;
          callback_returns = (case message_callback c3 of None \<Rightarrow> True | Some f \<Rightarrow> f vessel')
      in if callback_returns
         then c3\<lparr>ais_stats := (ais_stats c3)\<lparr>last_update := Some (t_stats clk)\<rparr>\<rparr>
         else c3)"

text \<open>
  \<^verbatim>\<open>_handle_position_report\<close>. In the source the vessel object is looked up or created
  first, and the check of the position \<open>(0, 0)\<close> comes after it.
\<close>

definition handle_position_report ::
  "clock_reads \<Rightarrow> PositionReport \<Rightarrow> AISStreamClient \<Rightarrow> AISStreamClient" where
  "handle_position_report clk r c =
     (if \<not> is_autonomous c r \<and> \<not> is_cargo_tanker_type c r then count_filtered c
      else if \<not> is_autonomous c r \<and> int (length (vessel_cache c)) \<ge> max_vessels c
      then count_filtered c
      else
        (let (vessel, c1) = lookup_or_create clk r c;
             (new_latitude, new_longitude) = new_position r vessel
         in if new_latitude = 0 \<and> new_longitude = 0 then count_filtered c1
            else publish clk r vessel c1))"

text \<open>
  The reports that reach the update of the handler: \<open>admitted\<close> is the negation of its
  two filter guards, \<open>reported_position\<close> the coordinates it compares with \<open>(0, 0)\<close> (an
  absent coordinate defaults to the one of the cached or newly created record).
\<close>

definition admitted :: "AISStreamClient \<Rightarrow> PositionReport \<Rightarrow> bool" where
  "admitted c r \<longleftrightarrow>
     \<not> (\<not> is_autonomous c r \<and> \<not> is_cargo_tanker_type c r) \<and>
     \<not> (\<not> is_autonomous c r \<and> int (length (vessel_cache c)) \<ge> max_vessels c)"

definition reported_position :: "AISStreamClient \<Rightarrow> PositionReport \<Rightarrow> real \<times> real" where
  "reported_position c r =
     (let old = (case map_of (vessel_cache c) (report_mmsi r) of
                   Some v \<Rightarrow> (latitude v, longitude v) | None \<Rightarrow> (0, 0))
      in ((case Latitude r of None \<Rightarrow> fst old | Some x \<Rightarrow> x),
          (case Longitude r of None \<Rightarrow> snd old | Some x \<Rightarrow> x)))"

definition accepted :: "AISStreamClient \<Rightarrow> PositionReport \<Rightarrow> bool" where
  "accepted c r \<longleftrightarrow> admitted c r \<and> reported_position c r \<noteq> (0, 0)"

text \<open>
  A received frame, as \<^verbatim>\<open>_process_message\<close> dispatches it: text that is not JSON, a
  position report, or a frame of a type that no modelled handler takes. The handler of
  \<^verbatim>\<open>ShipStaticData\<close> frames is outside this embedding.
\<close>

datatype frame = Invalid_JSON | Position_Report clock_reads PositionReport | Other_Type

definition process_message :: "frame \<Rightarrow> AISStreamClient \<Rightarrow> AISStreamClient" where
  "process_message f c =
     (let c1 = c\<lparr>ais_stats := (ais_stats c)\<lparr>messages_received := messages_received (ais_stats c) + 1\<rparr>\<rparr>
      in case f of
           Invalid_JSON \<Rightarrow>
             c1\<lparr>ais_stats := (ais_stats c1)\<lparr>parse_errors := parse_errors (ais_stats c1) + 1\<rparr>\<rparr>
         | Position_Report clk r \<Rightarrow> handle_position_report clk r c1
         | Other_Type \<Rightarrow> c1)"

fun process_messages :: "frame list \<Rightarrow> AISStreamClient \<Rightarrow> AISStreamClient" where
  "process_messages [] c = c"
| "process_messages (f # fs) c = process_messages fs (process_message f c)"

text \<open>
  \<^verbatim>\<open>connect\<close>, by what happens to the connection: opening it raises; or it opens, the
  frames of the session are processed, and the session ends by an exception
  (\<^verbatim>\<open>ConnectionClosed\<close> or another one, also from sending the subscription) or by the end
  of the receive loop. The loop leaves at its first frame when \<open>running\<close> is false. No
  other thread calls \<^verbatim>\<open>stop\<close> in this embedding.
\<close>

datatype session_end = Closed_With_Error | Ended_Normally

datatype connect_outcome = Connect_Failed | Session "frame list" session_end

definition connect :: "connect_outcome \<Rightarrow> AISStreamClient \<Rightarrow> AISStreamClient" where
  "connect out c =
     (case out of
        Connect_Failed \<Rightarrow> c\<lparr>is_connected := False\<rparr>
      | Session frames e \<Rightarrow>
          (let c1 = c\<lparr>is_connected := True, reconnect_attempts := 0\<rparr>
           in if \<not> running c1 \<and> frames \<noteq> [] then c1
              else
                (let c2 = process_messages frames c1
                 in case e of Closed_With_Error \<Rightarrow> c2\<lparr>is_connected := False\<rparr>
                    | Ended_Normally \<Rightarrow> c2)))"

text \<open>
  \<^verbatim>\<open>reconnect_with_backoff\<close>. Each iteration of the loop takes the outcome of its
  \<^verbatim>\<open>connect\<close> call from the list; \<open>None\<close> means that the loop is still running when the
  list is used up. The result carries, for every iteration, the attempt number and the
  seconds passed to \<^verbatim>\<open>asyncio.sleep\<close>.
\<close>

fun reconnect_with_backoff ::
  "connect_outcome list \<Rightarrow> AISStreamClient \<Rightarrow> ((nat \<times> nat) list \<times> AISStreamClient) option" where
  "reconnect_with_backoff outs c =
     (if running c \<and> reconnect_attempts c < max_reconnect_attempts c
      then (case outs of
              [] \<Rightarrow> None
            | out # rest \<Rightarrow>
                (let c1 = c\<lparr>reconnect_attempts := reconnect_attempts c + 1\<rparr>;
                     backoff_time = min (2 ^ reconnect_attempts c1) 60;
                     c2 = connect out c1
                 in if is_connected c2 then Some ([(reconnect_attempts c1, backoff_time)], c2)
                    else (case reconnect_with_backoff rest c2 of
                            None \<Rightarrow> None
                          | Some (sleeps, c3) \<Rightarrow>
                              Some ((reconnect_attempts c1, backoff_time) # sleeps, c3))))
      else Some ([], c\<lparr>running := False\<rparr>))"

declare reconnect_with_backoff.simps [simp del]

text \<open>
  The range of course and speed that the data model gives for a stored record, and the
  reports and frames whose \<open>Cog\<close> and \<open>Sog\<close>, when present, are in that range.
\<close>

definition course_speed_in_range :: "VesselState \<Rightarrow> bool" where
  "course_speed_in_range v \<longleftrightarrow> 0 \<le> course v \<and> course v < 360 \<and> 0 \<le> speed v"

definition report_in_range :: "PositionReport \<Rightarrow> bool" where
  "report_in_range r \<longleftrightarrow>
     (case Cog r of None \<Rightarrow> True | Some x \<Rightarrow> 0 \<le> x \<and> x < 360) \<and>
     (case Sog r of None \<Rightarrow> True | Some x \<Rightarrow> 0 \<le> x)"

definition frame_in_range :: "frame \<Rightarrow> bool" where
  "frame_in_range f =
     (case f of Position_Report clk r \<Rightarrow> report_in_range r | Invalid_JSON \<Rightarrow> True | Other_Type \<Rightarrow> True)"

definition cache_in_range :: "AISStreamClient \<Rightarrow> bool" where
  "cache_in_range c = list_all (\<lambda>kv. course_speed_in_range (snd kv)) (vessel_cache c)"

text \<open>
  The amended reading of the specification for course and speed, written from its
  words and not from the handler: per MMSI, the pair of \<open>Cog\<close> and \<open>Sog\<close> of the last
  accepted position report, as received; a value absent from the report keeps the one
  before it, and the values before the first accepted report are 0. Reports that are
  not accepted, and frames that are not position reports, change nothing. The client
  is passed along only to decide which reports are accepted.
\<close>

definition course_speed :: "VesselState \<Rightarrow> real \<times> real" where
  "course_speed v = (course v, speed v)"

definition held :: "(string \<rightharpoonup> real \<times> real) \<Rightarrow> string \<Rightarrow> real \<times> real" where
  "held m k = (case m k of None \<Rightarrow> (0, 0) | Some p \<Rightarrow> p)"

definition record_report ::
  "AISStreamClient \<Rightarrow> PositionReport \<Rightarrow> (string \<rightharpoonup> real \<times> real) \<Rightarrow> (string \<rightharpoonup> real \<times> real)" where
  "record_report c r m =
     (if accepted c r
      then m(report_mmsi r \<mapsto>
               ((case Cog r of None \<Rightarrow> fst (held m (report_mmsi r)) | Some x \<Rightarrow> x),
                (case Sog r of None \<Rightarrow> snd (held m (report_mmsi r)) | Some x \<Rightarrow> x)))
      else m)"

fun last_accepted_course_speed ::
  "frame list \<Rightarrow> AISStreamClient \<Rightarrow> (string \<rightharpoonup> real \<times> real) \<Rightarrow> (string \<rightharpoonup> real \<times> real)" where
  "last_accepted_course_speed [] c m = m"
| "last_accepted_course_speed (f # fs) c m =
     last_accepted_course_speed fs (process_message f c)
       (case f of Position_Report clk r \<Rightarrow> record_report c r m
        | Invalid_JSON \<Rightarrow> m | Other_Type \<Rightarrow> m)"

text \<open>
  The cache agrees with such a table: every cached record holds the pair of the table
  (0 and 0 where the table has none), and the table has entries for cached vessels only.
\<close>

definition tracks :: "AISStreamClient \<Rightarrow> (string \<rightharpoonup> real \<times> real) \<Rightarrow> bool" where
  "tracks c m \<longleftrightarrow>
     (\<forall>k v. map_of (vessel_cache c) k = Some v \<longrightarrow> course_speed v = held m k) \<and>
     (\<forall>k. m k \<noteq> None \<longrightarrow> map_of (vessel_cache c) k \<noteq> None)"

text \<open>
  Concrete inputs: a client with the default arguments of the constructor, a client
  with a queue of capacity 1, a clock, and position reports of two vessels of the
  autonomous list.
\<close>

definition default_client :: AISStreamClient where
  "default_client = AISStreamClient_init None 1000 20 False"

definition small_queue_client :: AISStreamClient where
  "small_queue_client = AISStreamClient_init None 1 20 False"

definition clock0 :: clock_reads where
  "clock0 = \<lparr>t_created = 0, t_updated = 0, t_stats = 0\<rparr>"

definition report_at :: "string \<Rightarrow> real \<Rightarrow> real \<Rightarrow> real \<Rightarrow> real \<Rightarrow> PositionReport" where
  "report_at m lat lon cog sog =
     \<lparr>MMSI = Some m, ShipName = None, Type = None,
      Latitude = Some lat, Longitude = Some lon, Cog = Some cog, Sog = Some sog,
      TrueHeading = None, NavigationalStatus = None, PositionAccuracy = None\<rparr>"

section \<open>Geometry and dead reckoning taken as given\<close>

text \<open>
  The simulators compute bearings, distances and predicted positions with the
  trigonometry of \<^verbatim>\<open>DeadReckoningEngine\<close> and find nearest points and polygon membership
  with the \<^verbatim>\<open>shapely\<close> library. The embedding takes these five functions as a parameter
  \<open>g\<close> of every tick: the control logic is modelled for any such functions.
  \<open>nearest_point\<close> is \<^verbatim>\<open>nearest_points(Point(x, y), LineString(coords))[1]\<close> and
  \<open>polygon_contains\<close> is \<^verbatim>\<open>Polygon(coords).contains(Point(x, y))\<close>.
\<close>

record prediction_input =
  last_latitude :: real
  last_longitude :: real
  course_deg :: real
  speed_knots :: real
  time_elapsed_seconds :: real
  wind_speed_knots :: "real option"
  wind_direction_deg :: "real option"
  current_speed_knots :: "real option"
  current_direction_deg :: "real option"

record geometry =
  calculate_bearing :: "real \<Rightarrow> real \<Rightarrow> real \<Rightarrow> real \<Rightarrow> real"
  calculate_distance_haversine :: "real \<Rightarrow> real \<Rightarrow> real \<Rightarrow> real \<Rightarrow> real"
  predict_position :: "prediction_input \<Rightarrow> real \<times> real"
  nearest_point :: "(real \<times> real) list \<Rightarrow> real \<times> real \<Rightarrow> real \<times> real"
  polygon_contains :: "(real \<times> real) list \<Rightarrow> real \<times> real \<Rightarrow> bool"

text \<open>The optional wind and current arguments of a tick.\<close>

record ambient =
  amb_wind_speed_knots :: "real option"
  amb_wind_direction_deg :: "real option"
  amb_current_speed_knots :: "real option"
  amb_current_direction_deg :: "real option"

text \<open>\<^verbatim>\<open>dt = delta_time_sec or self.update_interval\<close>: \<^verbatim>\<open>None\<close> and \<^verbatim>\<open>0\<close> are falsy.\<close>

definition tick_duration :: "int option \<Rightarrow> int \<Rightarrow> int" where
  "tick_duration delta_time_sec update_interval =
     (case delta_time_sec of None \<Rightarrow> update_interval
      | Some d \<Rightarrow> if d = 0 then update_interval else d)"

text \<open>
  Geometry results for evaluating a tick on concrete inputs: every bearing is \<open>b\<close> and
  every distance is \<open>d\<close>, the predicted position is the last position, the nearest point
  is the point itself and no polygon contains a point.
\<close>

definition test_geometry :: "real \<Rightarrow> real \<Rightarrow> geometry" where
  "test_geometry b d =
     \<lparr>calculate_bearing = (\<lambda>lat1 lon1 lat2 lon2. b),
      calculate_distance_haversine = (\<lambda>lat1 lon1 lat2 lon2. d),
      predict_position = (\<lambda>p. (last_latitude p, last_longitude p)),
      nearest_point = (\<lambda>line p. p),
      polygon_contains = (\<lambda>ring p. False)\<rparr>"

definition no_ambient :: ambient where
  "no_ambient = \<lparr>amb_wind_speed_knots = None, amb_wind_direction_deg = None,
     amb_current_speed_knots = None, amb_current_direction_deg = None\<rparr>"

section \<open>Corridor simulator (\<^verbatim>\<open>simulation_smr.py\<close>)\<close>

record GeofenceZone =
  zone_id :: string
  zone_name :: string
  zone_type :: string
  boundary_coords :: "(real \<times> real) list"
  zone_max_speed_knots :: "real option"
  mandatory_reporting :: bool

definition contains_point :: "geometry \<Rightarrow> GeofenceZone \<Rightarrow> real \<Rightarrow> real \<Rightarrow> bool" where
  "contains_point g z lat lon = polygon_contains g (boundary_coords z) (lon, lat)"

record Corridor =
  corridor_id :: string
  corridor_name :: string
  centerline_coords :: "(real \<times> real) list"
  width_m :: real
  corridor_max_speed_knots :: real

definition to_linestring :: "Corridor \<Rightarrow> (real \<times> real) list" where
  "to_linestring c = map (\<lambda>(lat, lon). (lon, lat)) (centerline_coords c)"

definition distance_from_centerline :: "geometry \<Rightarrow> Corridor \<Rightarrow> real \<Rightarrow> real \<Rightarrow> real" where
  "distance_from_centerline g c lat lon =
     (let nearest = nearest_point g (to_linestring c) (lon, lat)
      in calculate_distance_haversine g lat lon (snd nearest) (fst nearest))"

definition is_within_corridor :: "geometry \<Rightarrow> Corridor \<Rightarrow> real \<Rightarrow> real \<Rightarrow> bool" where
  "is_within_corridor g c lat lon = (distance_from_centerline g c lat lon \<le> width_m c / 2)"

text \<open>A value of the \<^verbatim>\<open>details\<close> dictionary of a violation.\<close>

datatype detail = Num real | Str string

record ViolationEvent =
  ev_timestamp :: real
  event_type :: string
  severity :: string
  ev_latitude :: real
  ev_longitude :: real
  details :: "(string \<times> detail) list"

record SMRVesselConfig =
  smr_vessel_name :: string
  smr_length_m :: real
  smr_width_m :: real
  smr_draught_m :: real
  smr_max_speed_knots :: real
  smr_cruise_speed_knots :: real
  radiation_monitoring_interval_sec :: int
  mandatory_position_reporting_interval_sec :: int
  corridor_deviation_threshold_m :: real

text \<open>The defaults of the dataclass \<^verbatim>\<open>SMRVesselConfig\<close>.\<close>

definition SMRVesselConfig_default :: SMRVesselConfig where
  "SMRVesselConfig_default =
     \<lparr>smr_vessel_name = ''SMR-PIONEER'', smr_length_m = 400, smr_width_m = 59, smr_draught_m = 16,
      smr_max_speed_knots = 25, smr_cruise_speed_knots = 22,
      radiation_monitoring_interval_sec = 300,
      mandatory_position_reporting_interval_sec = 60,
      corridor_deviation_threshold_m = 2000\<rparr>"

record smr_statistics =
  total_distance_traveled_m :: real
  corridor_deviations :: int
  geofence_violations :: int
  speed_violations :: int

record SMRVesselSimulator =
  smr_config :: SMRVesselConfig
  corridor :: Corridor
  geofence_zones :: "GeofenceZone list"
  smr_update_interval :: int
  smr_vessel_state :: VesselState
  current_centerline_index :: nat
  smr_simulation_time :: real
  violation_log :: "ViolationEvent list"
  smr_stats :: smr_statistics

definition SMR_MMSI :: string where
  "SMR_MMSI = ''999999999''"

text \<open>\<^verbatim>\<open>SMRVesselSimulator.__init__\<close> with \<^verbatim>\<open>_initialize_position\<close>.\<close>

definition SMRVesselSimulator_init ::
  "geometry \<Rightarrow> SMRVesselConfig \<Rightarrow> Corridor \<Rightarrow> GeofenceZone list \<Rightarrow> int \<Rightarrow> real
     \<Rightarrow> py_error + SMRVesselSimulator" where
  "SMRVesselSimulator_init g cfg cor zones update_interval_sec now =
     (if length (centerline_coords cor) < 2 then Inl ValueError
      else
        (let start_point = centerline_coords cor ! 0;
             next_point = centerline_coords cor ! 1;
             initial_course = calculate_bearing g (fst start_point) (snd start_point)
                                (fst next_point) (snd next_point)
         in Inr \<lparr>smr_config = cfg, corridor = cor, geofence_zones = zones,
                 smr_update_interval = update_interval_sec,
                 smr_vessel_state =
                   \<lparr>mmsi = SMR_MMSI, vessel_name = smr_vessel_name cfg, vessel_type = ''SMR'',
                    latitude = fst start_point, longitude = snd start_point,
                    course = initial_course, speed = smr_cruise_speed_knots cfg,
                    heading = Some initial_course, timestamp = now, position_accuracy = 1,
                    vessel_length = Some (smr_length_m cfg), vessel_width = Some (smr_width_m cfg),
                    draught = Some (smr_draught_m cfg), destination = Some (corridor_name cor),
                    eta = None, nav_status = None, is_simulated = True,
                    data_source = ''SIMULATED_SMR''\<rparr>,
                 current_centerline_index = 1,
                 smr_simulation_time = now,
                 violation_log = [],
                 smr_stats = \<lparr>total_distance_traveled_m = 0, corridor_deviations = 0,
                              geofence_violations = 0, speed_violations = 0\<rparr>\<rparr>))"

definition log_violation ::
  "string \<Rightarrow> string \<Rightarrow> (string \<times> detail) list \<Rightarrow> SMRVesselSimulator \<Rightarrow> SMRVesselSimulator" where
  "log_violation ev_type sev det s =
     s\<lparr>violation_log := violation_log s @
         [\<lparr>ev_timestamp = smr_simulation_time s, event_type = ev_type, severity = sev,
           ev_latitude = latitude (smr_vessel_state s),
           ev_longitude = longitude (smr_vessel_state s),
           details = det\<rparr>]\<rparr>"

text \<open>Section 6 of \<^verbatim>\<open>step\<close>: the corridor deviation check at the updated position.\<close>

definition check_corridor_deviation :: "geometry \<Rightarrow> SMRVesselSimulator \<Rightarrow> SMRVesselSimulator" where
  "check_corridor_deviation g s =
     (if \<not> is_within_corridor g (corridor s)
             (latitude (smr_vessel_state s)) (longitude (smr_vessel_state s))
      then
        (let deviation_distance = distance_from_centerline g (corridor s)
               (latitude (smr_vessel_state s)) (longitude (smr_vessel_state s))
         in if deviation_distance > corridor_deviation_threshold_m (smr_config s)
            then (let s1 = log_violation ''CORRIDOR_DEVIATION'' ''CRITICAL''
                             [(''deviation_distance_m'', Num deviation_distance),
                              (''corridor_width_m'', Num (width_m (corridor s))),
                              (''threshold_m'', Num (corridor_deviation_threshold_m (smr_config s)))] s
                  in s1\<lparr>smr_stats := (smr_stats s1)\<lparr>corridor_deviations :=
                          corridor_deviations (smr_stats s1) + 1\<rparr>\<rparr>)
            else s)
      else s)"

text \<open>Section 7 of \<^verbatim>\<open>step\<close>: one iteration of the loop over the geofence zones.\<close>

definition check_zone :: "geometry \<Rightarrow> GeofenceZone \<Rightarrow> SMRVesselSimulator \<Rightarrow> SMRVesselSimulator" where
  "check_zone g zone s =
     (let in_zone = contains_point g zone
            (latitude (smr_vessel_state s)) (longitude (smr_vessel_state s))
      in if zone_type zone = ''PROHIBITED'' \<and> in_zone
         then (let s1 = log_violation ''GEOFENCE_VIOLATION'' ''CRITICAL''
                          [(''zone_id'', Str (zone_id zone)), (''zone_name'', Str (zone_name zone)),
                           (''zone_type'', Str (zone_type zone))] s
               in s1\<lparr>smr_stats := (smr_stats s1)\<lparr>geofence_violations :=
                       geofence_violations (smr_stats s1) + 1\<rparr>\<rparr>)
         else if zone_type zone = ''RESTRICTED'' \<and> in_zone
         then (case zone_max_speed_knots zone of
                 None \<Rightarrow> s
               | Some m \<Rightarrow>
                   if m \<noteq> 0 \<and> speed (smr_vessel_state s) > m
                   then (let s1 = log_violation ''SPEED_VIOLATION'' ''WARNING''
                                    [(''zone_id'', Str (zone_id zone)),
                                     (''zone_name'', Str (zone_name zone)),
                                     (''current_speed_knots'', Num (speed (smr_vessel_state s))),
                                     (''max_allowed_speed_knots'', Num m)] s
                         in s1\<lparr>smr_stats := (smr_stats s1)\<lparr>speed_violations :=
                                 speed_violations (smr_stats s1) + 1\<rparr>\<rparr>)
                   else s)
         else s)"

fun check_zones :: "geometry \<Rightarrow> GeofenceZone list \<Rightarrow> SMRVesselSimulator \<Rightarrow> SMRVesselSimulator" where
  "check_zones g [] s = s"
| "check_zones g (zone # zones) s = check_zones g zones (check_zone g zone s)"

text \<open>
  Sections 2 to 5 of \<^verbatim>\<open>step\<close>: course and speed towards the target point of the
  centreline, and the move to the predicted position. The result is the simulator after
  the move and the distance to the target point measured before it.
\<close>

definition smr_navigate ::
  "geometry \<Rightarrow> int \<Rightarrow> ambient \<Rightarrow> SMRVesselSimulator \<Rightarrow> SMRVesselSimulator \<times> real" where
  "smr_navigate g dt amb s2 =
     (let v = smr_vessel_state s2;
          target_point = centerline_coords (corridor s2) ! current_centerline_index s2;
          target_course = calculate_bearing g (latitude v) (longitude v)
                            (fst target_point) (snd target_point);
          distance_to_target = calculate_distance_haversine g (latitude v) (longitude v)
                                 (fst target_point) (snd target_point);
          cross_track_error = distance_from_centerline g (corridor s2) (latitude v) (longitude v);
          K_p = 0.05;
          course_correction = K_p * cross_track_error;
          desired_course = target_course + sgn cross_track_error * min course_correction 10;
          max_turn_rate_deg_per_sec = 1.5;
          course_diff = py_fmod (desired_course - course v + 180) 360 - 180;
          max_course_change = max_turn_rate_deg_per_sec * of_int dt;
          course1 = (if \<bar>course_diff\<bar> > max_course_change
                     then course v + sgn course_diff * max_course_change
                     else desired_course);
          course2 = py_fmod course1 360;
          target_speed = min (smr_cruise_speed_knots (smr_config s2))
                             (corridor_max_speed_knots (corridor s2));
          v1 = v\<lparr>course := course2, heading := Some course2, speed := target_speed\<rparr>;
          prediction = predict_position g
            \<lparr>last_latitude = latitude v1, last_longitude = longitude v1,
             course_deg = course v1, speed_knots = speed v1,
             time_elapsed_seconds = of_int dt,
             wind_speed_knots = amb_wind_speed_knots amb,
             wind_direction_deg = amb_wind_direction_deg amb,
             current_speed_knots = amb_current_speed_knots amb,
             current_direction_deg = amb_current_direction_deg amb\<rparr>;
          distance_moved = calculate_distance_haversine g (latitude v1) (longitude v1)
                             (fst prediction) (snd prediction);
          v2 = v1\<lparr>latitude := fst prediction, longitude := snd prediction,
                  timestamp := smr_simulation_time s2\<rparr>
      in (s2\<lparr>smr_stats := (smr_stats s2)\<lparr>total_distance_traveled_m :=
                 total_distance_traveled_m (smr_stats s2) + distance_moved\<rparr>,
              smr_vessel_state := v2\<rparr>,
          distance_to_target))"

text \<open>\<^verbatim>\<open>SMRVesselSimulator.step\<close>.\<close>

definition smr_step ::
  "geometry \<Rightarrow> int option \<Rightarrow> ambient \<Rightarrow> SMRVesselSimulator \<Rightarrow> py_error + SMRVesselSimulator" where
  "smr_step g delta_time_sec amb s0 =
     (let dt = tick_duration delta_time_sec (smr_update_interval s0);
          s1 = s0\<lparr>smr_simulation_time := smr_simulation_time s0 + of_int dt\<rparr>;
          s2 = (if current_centerline_index s1 \<ge> length (centerline_coords (corridor s1))
                then s1\<lparr>current_centerline_index := 0\<rparr> else s1)
      in if current_centerline_index s2 \<ge> length (centerline_coords (corridor s2))
         then Inl IndexError
         else
           (let (s3, distance_to_target) = smr_navigate g dt amb s2;
                s4 = check_corridor_deviation g s3;
                s5 = check_zones g (geofence_zones s4) s4;
                waypoint_arrival_threshold = 1000
            in Inr (if distance_to_target < waypoint_arrival_threshold
                    then s5\<lparr>current_centerline_index := current_centerline_index s5 + 1\<rparr>
                    else s5)))"

text \<open>Consecutive ticks; the first exception ends the run.\<close>

fun smr_steps ::
  "geometry \<Rightarrow> (int option \<times> ambient) list \<Rightarrow> SMRVesselSimulator \<Rightarrow> py_error + SMRVesselSimulator" where
  "smr_steps g [] s = Inr s"
| "smr_steps g ((d, amb) # ticks) s =
     (case smr_step g d amb s of Inl e \<Rightarrow> Inl e | Inr s' \<Rightarrow> smr_steps g ticks s')"

text \<open>The corridor-deviation events of a violation log.\<close>

definition corridor_deviation_events :: "ViolationEvent list \<Rightarrow> ViolationEvent list" where
  "corridor_deviation_events evs = filter (\<lambda>e. event_type e = ''CORRIDOR_DEVIATION'') evs"

text \<open>
  The cross-track distance at the position of the vessel, and the condition under which
  section 6 of \<^verbatim>\<open>step\<close> logs: the distance exceeds half the corridor width and the
  deviation threshold.
\<close>

definition cross_track :: "geometry \<Rightarrow> SMRVesselSimulator \<Rightarrow> real" where
  "cross_track g s =
     distance_from_centerline g (corridor s)
       (latitude (smr_vessel_state s)) (longitude (smr_vessel_state s))"

definition beyond_both :: "geometry \<Rightarrow> SMRVesselSimulator \<Rightarrow> bool" where
  "beyond_both g s \<longleftrightarrow>
     cross_track g s > width_m (corridor s) / 2 \<and>
     cross_track g s > corridor_deviation_threshold_m (smr_config s)"

text \<open>Every tick of the run returns and ends at a position beyond both bounds.\<close>

fun all_beyond :: "geometry \<Rightarrow> (int option \<times> ambient) list \<Rightarrow> SMRVesselSimulator \<Rightarrow> bool" where
  "all_beyond g [] s = True"
| "all_beyond g ((d, amb) # ticks) s =
     (case smr_step g d amb s of
        Inl e \<Rightarrow> False
      | Inr s' \<Rightarrow> beyond_both g s' \<and> all_beyond g ticks s')"

text \<open>
  Geometry results for a vessel near the equator that follows a centreline along the
  equator eastwards, rounded to 100 km per degree and 0.5 m/s per knot: the nearest
  point of the centreline has the longitude of the vessel, distances add the differences
  of latitude and longitude, the vessel advances eastwards with its speed and is set
  northwards by the current.
\<close>

definition equator_geometry :: geometry where
  "equator_geometry =
     \<lparr>calculate_bearing = (\<lambda>lat1 lon1 lat2 lon2. if lon1 \<le> lon2 then 90 else 270),
      calculate_distance_haversine =
        (\<lambda>lat1 lon1 lat2 lon2. 100000 * (\<bar>lat2 - lat1\<bar> + \<bar>lon2 - lon1\<bar>)),
      predict_position =
        (\<lambda>p. (last_latitude p +
                  (case current_speed_knots p of None \<Rightarrow> 0
                   | Some c \<Rightarrow> c * 0.5 * time_elapsed_seconds p / 100000),
                last_longitude p + speed_knots p * 0.5 * time_elapsed_seconds p / 100000)),
      nearest_point = (\<lambda>line p. (fst p, 0)),
      polygon_contains = (\<lambda>ring p. False)\<rparr>"

text \<open>A corridor along the equator with the defaults of the dataclass \<^verbatim>\<open>Corridor\<close>.\<close>

definition equator_corridor :: Corridor where
  "equator_corridor =
     \<lparr>corridor_id = ''EQ_01'', corridor_name = ''Equator'',
      centerline_coords = [(0, 0), (0, 10)],
      width_m = 10000, corridor_max_speed_knots = 20\<rparr>"

definition northward_current :: "real \<Rightarrow> ambient" where
  "northward_current c =
     \<lparr>amb_wind_speed_knots = None, amb_wind_direction_deg = None,
      amb_current_speed_knots = Some c, amb_current_direction_deg = Some 0\<rparr>"

text \<open>
  The simulator that the constructor returns for this corridor, the default
  configuration, no geofence zones and ticks of one hour.
\<close>

definition equator_vessel :: SMRVesselSimulator where
  "equator_vessel =
     projr (SMRVesselSimulator_init equator_geometry SMRVesselConfig_default equator_corridor [] 3600 0)"

section \<open>Waypoint-route simulator (\<^verbatim>\<open>simulation_ammonia.py\<close>)\<close>

record Waypoint =
  wp_latitude :: real
  wp_longitude :: real
  wp_name :: string
  arrival_speed_knots :: real

record Route =
  waypoints :: "Waypoint list"
  route_name :: string

record AmmoniaVesselConfig =
  vessel_id :: int
  amm_vessel_name :: string
  route :: Route
  amm_length_m :: real
  amm_width_m :: real
  amm_draught_m :: real
  max_speed_knots :: real
  cruise_speed_knots :: real
  min_speed_knots :: real
  signal_blackout_probability :: real
  blackout_min_duration_sec :: int
  blackout_max_duration_sec :: int
  wind_sensitivity :: real
  current_sensitivity :: real

record AmmoniaVesselSimulator =
  amm_config :: AmmoniaVesselConfig
  amm_update_interval :: int
  amm_mmsi :: string
  current_waypoint_idx :: nat
  amm_vessel_state :: VesselState
  amm_simulation_time :: real
  amm_in_blackout :: bool
  amm_blackout_start_time :: "real option"
  amm_blackout_duration_sec :: int

text \<open>
  The random reads of one tick: \<open>u_blackout\<close> is the value of \<^verbatim>\<open>random.random()\<close> and
  \<open>duration_draw\<close> the value that \<^verbatim>\<open>random.randint\<close> returns; \<^verbatim>\<open>randint(a, b)\<close> raises
  \<^verbatim>\<open>ValueError\<close> when \<^verbatim>\<open>a > b\<close>.
\<close>

record blackout_draws =
  u_blackout :: real
  duration_draw :: int

definition update_blackout ::
  "blackout_draws \<Rightarrow> AmmoniaVesselSimulator \<Rightarrow> py_error + AmmoniaVesselSimulator" where
  "update_blackout rnd s =
     (if amm_in_blackout s
      then (case amm_blackout_start_time s of
              None \<Rightarrow> Inl TypeError
            | Some b \<Rightarrow>
                (let elapsed = amm_simulation_time s - b
                 in if elapsed \<ge> of_int (amm_blackout_duration_sec s)
                    then Inr (s\<lparr>amm_in_blackout := False, amm_blackout_start_time := None\<rparr>)
                    else Inr s))
      else if u_blackout rnd < signal_blackout_probability (amm_config s)
      then (if blackout_min_duration_sec (amm_config s) > blackout_max_duration_sec (amm_config s)
            then Inl ValueError
            else Inr (s\<lparr>amm_in_blackout := True,
                        amm_blackout_start_time := Some (amm_simulation_time s),
                        amm_blackout_duration_sec := duration_draw rnd\<rparr>))
      else Inr s)"

text \<open>
  Sections 4 and 5 of \<^verbatim>\<open>step\<close>: the speed profile with the acceleration limit and the
  course with the turn-rate limit, applied to the vessel record.
\<close>

definition adjust_speed_and_course ::
  "AmmoniaVesselConfig \<Rightarrow> Waypoint \<Rightarrow> real \<Rightarrow> real \<Rightarrow> int \<Rightarrow> VesselState \<Rightarrow> VesselState" where
  "adjust_speed_and_course cfg target_waypoint target_course distance_to_target dt v =
     (let deceleration_distance = 5000;
          target_speed =
            (if distance_to_target < deceleration_distance
             then (let speed_factor = distance_to_target / deceleration_distance
                   in min_speed_knots cfg +
                      (arrival_speed_knots target_waypoint - min_speed_knots cfg) * speed_factor)
             else cruise_speed_knots cfg);
          max_acceleration_knots_per_sec = 0.05;
          speed_diff = target_speed - speed v;
          max_speed_change = max_acceleration_knots_per_sec * of_int dt;
          speed1 = (if \<bar>speed_diff\<bar> > max_speed_change
                    then speed v + sgn speed_diff * max_speed_change
                    else target_speed);
          max_turn_rate_deg_per_sec = 2;
          course_diff = py_fmod (target_course - course v + 180) 360 - 180;
          max_course_change = max_turn_rate_deg_per_sec * of_int dt;
          course1 = (if \<bar>course_diff\<bar> > max_course_change
                     then course v + sgn course_diff * max_course_change
                     else target_course);
          course2 = py_fmod course1 360
      in v\<lparr>speed := speed1, course := course2, heading := Some course2\<rparr>)"

text \<open>\<^verbatim>\<open>AmmoniaVesselSimulator.step\<close>.\<close>

definition amm_step ::
  "geometry \<Rightarrow> int option \<Rightarrow> ambient \<Rightarrow> blackout_draws \<Rightarrow> AmmoniaVesselSimulator
     \<Rightarrow> py_error + AmmoniaVesselSimulator" where
  "amm_step g delta_time_sec amb rnd s0 =
     (let dt = tick_duration delta_time_sec (amm_update_interval s0);
          s1 = s0\<lparr>amm_simulation_time := amm_simulation_time s0 + of_int dt\<rparr>
      in case update_blackout rnd s1 of
           Inl e \<Rightarrow> Inl e
         | Inr s2 \<Rightarrow>
             (let s3 = (if current_waypoint_idx s2 \<ge> length (waypoints (route (amm_config s2)))
                        then s2\<lparr>current_waypoint_idx := 0\<rparr> else s2)
              in if current_waypoint_idx s3 \<ge> length (waypoints (route (amm_config s3)))
                 then Inl IndexError
                 else
                   (let v = amm_vessel_state s3;
                        target_waypoint = waypoints (route (amm_config s3)) ! current_waypoint_idx s3;
                        target_course = calculate_bearing g (latitude v) (longitude v)
                                          (wp_latitude target_waypoint) (wp_longitude target_waypoint);
                        distance_to_target = calculate_distance_haversine g (latitude v) (longitude v)
                                          (wp_latitude target_waypoint) (wp_longitude target_waypoint);
                        v1 = adjust_speed_and_course (amm_config s3) target_waypoint
                               target_course distance_to_target dt v;
                        prediction = predict_position g
                          \<lparr>last_latitude = latitude v1, last_longitude = longitude v1,
                           course_deg = course v1, speed_knots = speed v1,
                           time_elapsed_seconds = of_int dt,
                           wind_speed_knots = amb_wind_speed_knots amb,
                           wind_direction_deg = amb_wind_direction_deg amb,
                           current_speed_knots = amb_current_speed_knots amb,
                           current_direction_deg = amb_current_direction_deg amb\<rparr>;
                        v2 = v1\<lparr>latitude := fst prediction, longitude := snd prediction,
                                timestamp := amm_simulation_time s3\<rparr>;
                        s4 = s3\<lparr>amm_vessel_state := v2\<rparr>;
                        waypoint_arrival_threshold = 500
                    in Inr (if distance_to_target < waypoint_arrival_threshold
                            then s4\<lparr>current_waypoint_idx := current_waypoint_idx s4 + 1\<rparr>
                            else s4))))"

definition AMMONIA_MMSI_BASE :: int where
  "AMMONIA_MMSI_BASE = 900000000"

text \<open>
  \<^verbatim>\<open>AmmoniaVesselSimulator.__init__\<close> with \<^verbatim>\<open>_initialize_position\<close>; \<open>mmsi_text\<close> is
  the text that \<^verbatim>\<open>str\<close> makes of \<^verbatim>\<open>AMMONIA_MMSI_BASE + vessel_id\<close>.
\<close>

definition AmmoniaVesselSimulator_init ::
  "geometry \<Rightarrow> AmmoniaVesselConfig \<Rightarrow> int \<Rightarrow> string \<Rightarrow> real \<Rightarrow> py_error + AmmoniaVesselSimulator" where
  "AmmoniaVesselSimulator_init g cfg update_interval_sec mmsi_text now =
     (case waypoints (route cfg) of
        [] \<Rightarrow> Inl ValueError
      | start_waypoint # rest \<Rightarrow>
          (let initial_course =
                 (case rest of
                    [] \<Rightarrow> 0
                  | next_waypoint # _ \<Rightarrow>
                      calculate_bearing g (wp_latitude start_waypoint) (wp_longitude start_waypoint)
                        (wp_latitude next_waypoint) (wp_longitude next_waypoint))
           in Inr \<lparr>amm_config = cfg, amm_update_interval = update_interval_sec,
                   amm_mmsi = mmsi_text,
                   current_waypoint_idx = 1,
                   amm_vessel_state =
                     \<lparr>mmsi = mmsi_text, vessel_name = amm_vessel_name cfg, vessel_type = ''AMMONIA'',
                      latitude = wp_latitude start_waypoint, longitude = wp_longitude start_waypoint,
                      course = initial_course, speed = cruise_speed_knots cfg,
                      heading = Some initial_course, timestamp = now, position_accuracy = 1,
                      vessel_length = Some (amm_length_m cfg), vessel_width = Some (amm_width_m cfg),
                      draught = Some (amm_draught_m cfg), destination = Some (route_name (route cfg)),
                      eta = None, nav_status = None, is_simulated = True,
                      data_source = ''SIMULATED_AMMONIA''\<rparr>,
                   amm_simulation_time = now,
                   amm_in_blackout = False,
                   amm_blackout_start_time = None,
                   amm_blackout_duration_sec = 0\<rparr>))"

text \<open>
  The second sample route of \<^verbatim>\<open>create_sample_routes\<close> and a vessel on it with the
  defaults of \<^verbatim>\<open>AmmoniaVesselConfig\<close>: the vessel heads north at 10 knots at the first
  waypoint, and the second waypoint is its target.
\<close>

definition australia_to_japan :: Route where
  "australia_to_japan =
     \<lparr>waypoints =
        [\<lparr>wp_latitude = -20, wp_longitude = 118, wp_name = ''Western Australia'', arrival_speed_knots = 15\<rparr>,
         \<lparr>wp_latitude = -10, wp_longitude = 125, wp_name = ''Timor Sea'', arrival_speed_knots = 17\<rparr>,
         \<lparr>wp_latitude = 0, wp_longitude = 130, wp_name = ''Equator Crossing'', arrival_speed_knots = 17\<rparr>,
         \<lparr>wp_latitude = 10, wp_longitude = 135, wp_name = ''Philippine Sea'', arrival_speed_knots = 17\<rparr>,
         \<lparr>wp_latitude = 25, wp_longitude = 138, wp_name = ''Pacific Ocean'', arrival_speed_knots = 17\<rparr>,
         \<lparr>wp_latitude = 35, wp_longitude = 140, wp_name = ''Tokyo Bay'', arrival_speed_knots = 12\<rparr>],
      route_name = ''Australia to Japan''\<rparr>"

definition sample_ammonia_config :: AmmoniaVesselConfig where
  "sample_ammonia_config =
     \<lparr>vessel_id = 2, amm_vessel_name = ''Horizon'', route = australia_to_japan,
      amm_length_m = 230, amm_width_m = 36, amm_draught_m = 12.5,
      max_speed_knots = 19.5, cruise_speed_knots = 16, min_speed_knots = 10,
      signal_blackout_probability = 0.05,
      blackout_min_duration_sec = 60, blackout_max_duration_sec = 600,
      wind_sensitivity = 0.03, current_sensitivity = 0.8\<rparr>"

definition sample_ammonia_vessel :: AmmoniaVesselSimulator where
  "sample_ammonia_vessel =
     \<lparr>amm_config = sample_ammonia_config, amm_update_interval = 10,
      amm_mmsi = ''900000002'',
      current_waypoint_idx = 1,
      amm_vessel_state =
        \<lparr>mmsi = ''900000002'', vessel_name = ''Horizon'', vessel_type = ''AMMONIA'',
         latitude = -20, longitude = 118, course = 0, speed = 10,
         heading = Some 0, timestamp = 0, position_accuracy = 1,
         vessel_length = Some 230, vessel_width = Some 36, draught = Some 12.5,
         destination = Some ''Australia to Japan'', eta = None, nav_status = None,
         is_simulated = True, data_source = ''SIMULATED_AMMONIA''\<rparr>,
      amm_simulation_time = 0,
      amm_in_blackout = False,
      amm_blackout_start_time = None,
      amm_blackout_duration_sec = 0\<rparr>"

text \<open>
  The signed change from course \<open>a\<close> to course \<open>b\<close> along the shorter rotation, in
  \<open>[-180, 180)\<close>: the expression that the source uses for \<^verbatim>\<open>course_diff\<close>.
\<close>

definition shortest_rotation :: "real \<Rightarrow> real \<Rightarrow> real" where
  "shortest_rotation a b = py_fmod (b - a + 180) 360 - 180"

section \<open>Verification: channel simulator\<close>

lemma transmit_channel_stats:
  assumes "transmit_channel d s = (r, s')"
  shows "total_packets (stats s') = total_packets (stats s)"
    and "lost_packets (stats s) \<le> lost_packets (stats s')"
    and "lost_packets (stats s') \<le> lost_packets (stats s) + 1"
    and "in_blackout s' = in_blackout s"
    and "blackout_start_time s' = blackout_start_time s"
    and "blackout_end_time s' = blackout_end_time s"
  using assms
  by (auto simp: transmit_channel_def Let_def split: prod.splits if_splits)

lemma transmit_channel_inv:
  assumes "chan_pre x"
  shows "\<exists>r s'. transmit_channel d x = (r, s') \<and> chan_inv s'"
proof -
  obtain r s' where E: "transmit_channel d x = (r, s')" by (cases "transmit_channel d x")
  from transmit_channel_stats[OF E] assms have "chan_inv s'"
    by (simp add: chan_inv_def chan_pre_def)
  with E show ?thesis by blast
qed

lemma process_transmission_inv:
  assumes "chan_inv s"
  shows "\<exists>r s'. process_transmission t d s = Inr (r, s') \<and> chan_inv s'"
proof -
  define s1 where "s1 = (case t of None \<Rightarrow> s | Some t' \<Rightarrow> s\<lparr>simulation_time := t'\<rparr>)"
  define s2 where "s2 = s1\<lparr>stats := (stats s1)\<lparr>total_packets := total_packets (stats s1) + 1\<rparr>\<rparr>"
  define s3 where "s3 = (if force_blackout (config s2) \<and> \<not> in_blackout s2
                then s2\<lparr>in_blackout := True,
                        blackout_start_time := Some (simulation_time s2),
                        blackout_end_time := Some (simulation_time s2 + of_int (blackout_duration_sec (config s2))),
                        stats := (stats s2)\<lparr>blackout_events := blackout_events (stats s2) + 1\<rparr>\<rparr>
                else s2)"
  have P3: "chan_pre s3"
    using assms by (cases t) (auto simp: chan_inv_def chan_pre_def s1_def s2_def s3_def)
  have U: "process_transmission t d s =
     (if in_blackout s3
         then (case blackout_end_time s3 of
                 None \<Rightarrow> Inl TypeError
               | Some e \<Rightarrow>
                   if simulation_time s3 \<ge> e
                   then (case blackout_start_time s3 of
                           None \<Rightarrow> Inl TypeError
                         | Some b \<Rightarrow>
                             Inr (transmit_channel d
                               (s3\<lparr>stats := (stats s3)\<lparr>total_blackout_duration_sec :=
                                       total_blackout_duration_sec (stats s3) + (e - b)\<rparr>,
                                    in_blackout := False,
                                    blackout_start_time := None,
                                    blackout_end_time := None\<rparr>)))
                   else Inr (Blackout_Failure,
                             s3\<lparr>stats := (stats s3)\<lparr>lost_packets := lost_packets (stats s3) + 1\<rparr>\<rparr>))
         else Inr (transmit_channel d s3))"
    unfolding process_transmission_def s1_def s2_def s3_def Let_def ..
  show ?thesis
  proof (cases "in_blackout s3")
    case False
    with U transmit_channel_inv[OF P3, of d] show ?thesis by auto
  next
    case True
    with P3 obtain b e where BE: "blackout_start_time s3 = Some b" "blackout_end_time s3 = Some e"
      by (auto simp: chan_pre_def)
    show ?thesis
    proof (cases "simulation_time s3 \<ge> e")
      case True
      let ?x = "s3\<lparr>stats := (stats s3)\<lparr>total_blackout_duration_sec :=
                                       total_blackout_duration_sec (stats s3) + (e - b)\<rparr>,
                                    in_blackout := False,
                                    blackout_start_time := None,
                                    blackout_end_time := None\<rparr>"
      have "chan_pre ?x" using P3 by (simp add: chan_pre_def)
      from transmit_channel_inv[OF this, of d] U \<open>in_blackout s3\<close> BE True
      show ?thesis by auto
    next
      case False
      have "chan_inv (s3\<lparr>stats := (stats s3)\<lparr>lost_packets := lost_packets (stats s3) + 1\<rparr>\<rparr>)"
        using P3 by (simp add: chan_pre_def chan_inv_def)
      with U \<open>in_blackout s3\<close> BE False show ?thesis by simp
    qed
  qed
qed

lemma run_channel_inv:
  "chan_inv s \<Longrightarrow> \<exists>s'. run_channel ops s = Inr s' \<and> chan_inv s'"
proof (induction ops arbitrary: s)
  case Nil
  then show ?case by simp
next
  case (Cons a ops)
  show ?case
  proof (cases a)
    case (Transmit t d)
    from process_transmission_inv[OF Cons.prems, of t d]
    obtain r s1 where "process_transmission t d s = Inr (r, s1)" "chan_inv s1" by blast
    with Cons.IH[of s1] Transmit show ?thesis by simp
  next
    case Reset
    have "chan_inv (reset_statistics s)"
      using Cons.prems by (simp add: chan_inv_def reset_statistics_def zero_stats_def)
    with Cons.IH Reset show ?thesis by simp
  next
    case (Configure cfg)
    have "chan_inv (s\<lparr>config := cfg\<rparr>)"
      using Cons.prems by (simp add: chan_inv_def)
    with Cons.IH Configure show ?thesis by simp
  qed
qed

lemma init_inv: "chan_inv (ScenarioController_init cfg now)"
  by (simp add: chan_inv_def ScenarioController_init_def zero_stats_def)

lemma reliability_formula:
  "0 < total_packets (stats s) \<Longrightarrow> calculate_reliability_index s =
     Inr (100 * real_of_int (total_packets (stats s) - lost_packets (stats s)) / real_of_int (total_packets (stats s)))"
  by (simp add: calculate_reliability_index_def py_truediv_def Let_def)

lemma reliability_bounds:
  assumes "0 \<le> l" "l \<le> t" "0 < (t::int)"
  shows "0 \<le> 100 * real_of_int (t - l) / real_of_int t" "100 * real_of_int (t - l) / real_of_int t \<le> 100"
  using assms by (simp_all add: divide_le_eq)

text \<open>
  Claim C7. For every state with \<open>total_packets > 0\<close>, \<open>calculate_reliability_index\<close>
  returns \<open>100 * (total_packets - lost_packets) / total_packets\<close>. After any history of
  \<open>process_transmission\<close> calls, resets and configuration changes on a new controller, no
  call has raised, \<open>0 \<le> lost_packets \<le> total_packets\<close>, and the index, when
  \<open>total_packets > 0\<close>, lies in \<open>[0, 100]\<close>.
\<close>

theorem reliability_index_range:
  "(0 < total_packets (stats s0) \<longrightarrow> calculate_reliability_index s0 =
       Inr (100 * real_of_int (total_packets (stats s0) - lost_packets (stats s0)) / real_of_int (total_packets (stats s0))))
   \<and> (case run_channel ops (ScenarioController_init cfg now) of
        Inl e \<Rightarrow> False
      | Inr s \<Rightarrow> 0 \<le> lost_packets (stats s) \<and> lost_packets (stats s) \<le> total_packets (stats s)
          \<and> (0 < total_packets (stats s) \<longrightarrow>
                (\<exists>sai. calculate_reliability_index s = Inr sai \<and> 0 \<le> sai \<and> sai \<le> 100)))"
proof -
  obtain s where R: "run_channel ops (ScenarioController_init cfg now) = Inr s" and I: "chan_inv s"
    using run_channel_inv[OF init_inv] by blast
  have "0 < total_packets (stats s) \<longrightarrow>
          (\<exists>sai. calculate_reliability_index s = Inr sai \<and> 0 \<le> sai \<and> sai \<le> 100)"
    using I reliability_formula[of s] reliability_bounds[of "lost_packets (stats s)" "total_packets (stats s)"]
    by (auto simp: chan_inv_def)
  with R I show ?thesis
    using reliability_formula[of s0] by (simp add: chan_inv_def)
qed


text \<open>
  The formula at 4 packets with 1 lost (index 75), and the history of one delivered and
  one lost packet under the normal-conditions scenario.
\<close>

theorem reliability_index_range_witness:
  "(0 < total_packets (stats ((ScenarioController_init create_scenario_normal_conditions 0)
        \<lparr>stats := zero_stats\<lparr>total_packets := 4, lost_packets := 1\<rparr>\<rparr>))
    \<and> calculate_reliability_index ((ScenarioController_init create_scenario_normal_conditions 0)
        \<lparr>stats := zero_stats\<lparr>total_packets := 4, lost_packets := 1\<rparr>\<rparr>) = Inr 75)
   \<and> (case run_channel [Transmit None quiet_draws, Transmit None lossy_draws]
              (ScenarioController_init create_scenario_normal_conditions 0) of
        Inl e \<Rightarrow> False
      | Inr s \<Rightarrow> 0 < total_packets (stats s) \<and> lost_packets (stats s) \<le> total_packets (stats s)
          \<and> (\<exists>sai. calculate_reliability_index s = Inr sai \<and> 0 \<le> sai \<and> sai \<le> 100))"
proof -
  let ?s0 = "(ScenarioController_init create_scenario_normal_conditions 0)
        \<lparr>stats := zero_stats\<lparr>total_packets := 4, lost_packets := 1\<rparr>\<rparr>"
  let ?ops = "[Transmit None quiet_draws, Transmit None lossy_draws]"
  have P: "0 < total_packets (stats ?s0)" by (simp add: zero_stats_def)
  have T: "case run_channel ?ops (ScenarioController_init create_scenario_normal_conditions 0) of
             Inl e \<Rightarrow> False | Inr s \<Rightarrow> 0 < total_packets (stats s)"
    by (simp add: process_transmission_def transmit_channel_def ge_step_def Let_def
        ScenarioController_init_def GilbertElliotModel_init_def create_scenario_normal_conditions_def
        get_vsat_def quiet_draws_def lossy_draws_def zero_stats_def calculate_sea_state_impact_def
        sea_state_factors_def)
  from reliability_index_range[of ?s0 ?ops create_scenario_normal_conditions 0] P T
  show ?thesis
    by (auto simp: zero_stats_def split: sum.splits)
qed

lemma transmit_channel_not_blackout: "fst (transmit_channel d x) \<noteq> Blackout_Failure"
  by (simp add: transmit_channel_def Let_def split: prod.split)

text \<open>
  Claim C8. A \<open>process_transmission\<close> call that fails with reason \<open>BLACKOUT\<close> leaves the
  Gilbert-Elliott model as it was: its state and its four probabilities are unchanged.
\<close>

theorem blackout_leaves_ge_untouched:
  assumes "process_transmission t d s = Inr (Blackout_Failure, s')"
  shows "ge_model s' = ge_model s"
proof -
  have N: "\<And>x. transmit_channel d x \<noteq> (Blackout_Failure, s')"
    using transmit_channel_not_blackout by (metis fst_conv)
  from assms show ?thesis
    unfolding process_transmission_def Let_def
    by (cases t) (auto simp: N split: if_splits option.splits)
qed

text \<open>
  The first call under the critical-failure scenario (forced blackout of 600 s) opens the
  window and fails with reason \<open>BLACKOUT\<close>.
\<close>

theorem blackout_leaves_ge_untouched_witness:
  "\<exists>s'. process_transmission (Some 10) quiet_draws
            (ScenarioController_init create_scenario_critical_failure 0) = Inr (Blackout_Failure, s')
       \<and> ge_model s' = ge_model (ScenarioController_init create_scenario_critical_failure 0)"
proof -
  have "\<exists>s'. process_transmission (Some 10) quiet_draws
            (ScenarioController_init create_scenario_critical_failure 0) = Inr (Blackout_Failure, s')"
    by (simp add: process_transmission_def Let_def ScenarioController_init_def
        create_scenario_critical_failure_def)
  then obtain s' where E: "process_transmission (Some 10) quiet_draws
            (ScenarioController_init create_scenario_critical_failure 0) = Inr (Blackout_Failure, s')" ..
  from blackout_leaves_ge_untouched[OF E] E show ?thesis by blast
qed

text \<open>
  Claim C10. On a new controller and after \<open>reset_statistics\<close>, and in every state with
  \<open>total_packets = 0\<close> that a history reaches, \<open>calculate_reliability_index\<close> returns 100
  and \<open>calculate_average_latency\<close> returns 0; neither divides by zero.
\<close>

theorem metrics_defined_without_packets:
  "calculate_reliability_index (ScenarioController_init cfg now) = Inr 100
   \<and> calculate_average_latency (ScenarioController_init cfg now) = Inr 0
   \<and> calculate_reliability_index (reset_statistics s) = Inr 100
   \<and> calculate_average_latency (reset_statistics s) = Inr 0
   \<and> (case run_channel ops (ScenarioController_init cfg now) of
        Inl e \<Rightarrow> False
      | Inr s' \<Rightarrow> total_packets (stats s') = 0 \<longrightarrow>
          calculate_reliability_index s' = Inr 100 \<and> calculate_average_latency s' = Inr 0)"
proof -
  obtain s' where R: "run_channel ops (ScenarioController_init cfg now) = Inr s'" and I: "chan_inv s'"
    using run_channel_inv[OF init_inv] by blast
  have "total_packets (stats s') = 0 \<longrightarrow>
          calculate_reliability_index s' = Inr 100 \<and> calculate_average_latency s' = Inr 0"
    using I by (auto simp: chan_inv_def calculate_reliability_index_def calculate_average_latency_def Let_def)
  with R show ?thesis
    by (simp add: calculate_reliability_index_def calculate_average_latency_def Let_def
        ScenarioController_init_def reset_statistics_def zero_stats_def)
qed

text \<open>A history that ends with a reset: one lost packet, then \<open>reset_statistics\<close>.\<close>

theorem metrics_defined_without_packets_witness:
  "case run_channel [Transmit None lossy_draws, Reset]
          (ScenarioController_init create_scenario_normal_conditions 0) of
     Inl e \<Rightarrow> False
   | Inr s' \<Rightarrow> total_packets (stats s') = 0 \<and>
        calculate_reliability_index s' = Inr 100 \<and> calculate_average_latency s' = Inr 0"
proof -
  have T: "case run_channel [Transmit None lossy_draws, Reset]
          (ScenarioController_init create_scenario_normal_conditions 0) of
             Inl e \<Rightarrow> False | Inr s \<Rightarrow> total_packets (stats s) = 0"
    by (simp add: process_transmission_def transmit_channel_def ge_step_def Let_def
        ScenarioController_init_def GilbertElliotModel_init_def create_scenario_normal_conditions_def
        get_vsat_def lossy_draws_def zero_stats_def reset_statistics_def)
  from metrics_defined_without_packets[of create_scenario_normal_conditions 0
         "ScenarioController_init create_scenario_normal_conditions 0"
         "[Transmit None lossy_draws, Reset]"] T
  show ?thesis by (auto split: sum.splits)
qed

section \<open>Verification: waypoint-route simulator\<close>

lemma py_fmod_shift: "py_fmod (x + 360 * of_int k) 360 = py_fmod x 360"
proof -
  have "(x + 360 * of_int k) / 360 = x / 360 + of_int k" by (simp add: add_divide_distrib)
  then have "\<lfloor>(x + 360 * of_int k) / 360\<rfloor> = \<lfloor>x / 360\<rfloor> + k" by (simp only: floor_add_int)
  then show ?thesis by (simp add: py_fmod_def algebra_simps)
qed

lemma py_fmod_range: "0 \<le> py_fmod x 360" "py_fmod x 360 < 360"
proof -
  have A: "of_int \<lfloor>x / 360\<rfloor> \<le> x / 360" by (rule of_int_floor_le)
  have B: "x / 360 < of_int \<lfloor>x / 360\<rfloor> + 1" by linarith
  from A show "0 \<le> py_fmod x 360" by (simp add: py_fmod_def field_simps)
  from B show "py_fmod x 360 < 360" by (simp add: py_fmod_def field_simps)
qed

lemma py_fmod_id: "0 \<le> x \<Longrightarrow> x < 360 \<Longrightarrow> py_fmod x 360 = x"
proof -
  assume "0 \<le> x" "x < 360"
  then have "\<lfloor>x / 360\<rfloor> = 0" by (simp add: floor_eq_iff)
  then show ?thesis by (simp add: py_fmod_def)
qed

lemma py_fmod_inner: "py_fmod (py_fmod y 360 + z) 360 = py_fmod (y + z) 360"
proof -
  have "py_fmod y 360 + z = (y + z) + 360 * of_int (- \<lfloor>y / 360\<rfloor>)"
    by (simp add: py_fmod_def)
  then have "py_fmod (py_fmod y 360 + z) 360 = py_fmod ((y + z) + 360 * of_int (- \<lfloor>y / 360\<rfloor>)) 360"
    by (simp only:)
  also have "\<dots> = py_fmod (y + z) 360" by (rule py_fmod_shift)
  finally show ?thesis .
qed

lemma shortest_rotation_mod: "shortest_rotation c (py_fmod y 360) = py_fmod (y - c + 180) 360 - 180"
proof -
  have "py_fmod y 360 - c + 180 = py_fmod y 360 + (180 - c)" by simp
  moreover have "y - c + 180 = y + (180 - c)" by simp
  ultimately show ?thesis
    unfolding shortest_rotation_def using py_fmod_inner[of y "180 - c"] by (simp only:)
qed

lemma turn_limit:
  assumes "0 \<le> m"
  shows "\<bar>shortest_rotation c
           (py_fmod (if \<bar>py_fmod (tc - c + 180) 360 - 180\<bar> > m
                     then c + sgn (py_fmod (tc - c + 180) 360 - 180) * m else tc) 360)\<bar> \<le> m"
proof -
  define cd where "cd = py_fmod (tc - c + 180) 360 - 180"
  have R: "-180 \<le> cd" "cd < 180" using py_fmod_range[of "tc - c + 180"] by (auto simp: cd_def)
  show ?thesis unfolding cd_def[symmetric]
  proof (cases "\<bar>cd\<bar> > m")
    case False
    have "shortest_rotation c (py_fmod tc 360) = cd"
      unfolding cd_def by (rule shortest_rotation_mod)
    with False show "\<bar>shortest_rotation c (py_fmod (if m < \<bar>cd\<bar> then c + sgn cd * m else tc) 360)\<bar> \<le> m"
      by simp
  next
    case True
    then have M: "m < 180" using R by linarith
    have "\<bar>shortest_rotation c (py_fmod (c + sgn cd * m) 360)\<bar> \<le> m"
    proof (cases "cd > 0")
      case True
      then have S: "sgn cd = 1" by simp
      have "shortest_rotation c (py_fmod (c + m) 360) = py_fmod (m + 180) 360 - 180"
        using shortest_rotation_mod[of c "c + m"] by simp
      moreover have "py_fmod (m + 180) 360 = m + 180" using assms M by (intro py_fmod_id) auto
      ultimately have "shortest_rotation c (py_fmod (c + m) 360) = m" by simp
      then show ?thesis unfolding S using assms by simp
    next
      case False
      with \<open>\<bar>cd\<bar> > m\<close> assms have "cd < 0" by linarith
      then have S: "sgn cd = -1" by simp
      have "shortest_rotation c (py_fmod (c - m) 360) = py_fmod (180 - m) 360 - 180"
        using shortest_rotation_mod[of c "c - m"] by (simp add: algebra_simps)
      moreover have "py_fmod (180 - m) 360 = 180 - m" using assms M by (intro py_fmod_id) auto
      ultimately have "shortest_rotation c (py_fmod (c - m) 360) = - m" by simp
      then show ?thesis unfolding S using assms by simp
    qed
    with True show "\<bar>shortest_rotation c (py_fmod (if m < \<bar>cd\<bar> then c + sgn cd * m else tc) 360)\<bar> \<le> m"
      by simp
  qed
qed

lemma speed_limit:
  assumes "0 \<le> (m::real)"
  shows "\<bar>(if \<bar>ts - v\<bar> > m then v + sgn (ts - v) * m else ts) - v\<bar> \<le> m"
proof (cases "\<bar>ts - v\<bar> > m")
  case True
  then have "ts - v \<noteq> 0" using assms by auto
  then have "\<bar>sgn (ts - v) * m\<bar> = m" using assms by (simp add: abs_mult)
  with True show ?thesis by simp
next
  case False
  then show ?thesis by simp
qed

lemma update_blackout_frame:
  "update_blackout rnd x = Inr y \<Longrightarrow> amm_vessel_state y = amm_vessel_state x"
  by (auto simp: update_blackout_def Let_def split: if_splits option.splits)

lemma adjust_limits:
  assumes "0 \<le> dt"
  shows "\<bar>speed (adjust_speed_and_course cfg wp tc d dt v) - speed v\<bar> \<le> 0.05 * of_int dt"
    and "\<bar>shortest_rotation (course v) (course (adjust_speed_and_course cfg wp tc d dt v))\<bar> \<le> 2 * of_int dt"
proof -
  have m1: "0 \<le> 0.05 * real_of_int dt" and m2: "0 \<le> 2 * real_of_int dt"
    using assms by simp_all
  show "\<bar>speed (adjust_speed_and_course cfg wp tc d dt v) - speed v\<bar> \<le> 0.05 * of_int dt"
    unfolding adjust_speed_and_course_def Let_def
    using speed_limit[OF m1] by simp
  show "\<bar>shortest_rotation (course v) (course (adjust_speed_and_course cfg wp tc d dt v))\<bar> \<le> 2 * of_int dt"
    unfolding adjust_speed_and_course_def Let_def
    using turn_limit[OF m2, of "course v" tc] by simp
qed

lemma amm_step_vessel:
  assumes "amm_step g delta_time_sec amb rnd s = Inr s'"
  shows "\<exists>cfg wp tc d.
           speed (amm_vessel_state s') = speed (adjust_speed_and_course cfg wp tc d
              (tick_duration delta_time_sec (amm_update_interval s)) (amm_vessel_state s))
         \<and> course (amm_vessel_state s') = course (adjust_speed_and_course cfg wp tc d
              (tick_duration delta_time_sec (amm_update_interval s)) (amm_vessel_state s))"
proof -
  define dt where "dt = tick_duration delta_time_sec (amm_update_interval s)"
  define s1 where "s1 = s\<lparr>amm_simulation_time := amm_simulation_time s + of_int dt\<rparr>"
  from assms obtain s2 where U: "update_blackout rnd s1 = Inr s2"
    unfolding amm_step_def Let_def dt_def[symmetric] s1_def[symmetric]
    by (cases "update_blackout rnd s1") auto
  define s3 where "s3 = (if current_waypoint_idx s2 \<ge> length (waypoints (route (amm_config s2)))
                        then s2\<lparr>current_waypoint_idx := 0\<rparr> else s2)"
  have V: "amm_vessel_state s3 = amm_vessel_state s"
    using update_blackout_frame[OF U] by (simp add: s3_def s1_def)
  define wp where "wp = waypoints (route (amm_config s3)) ! current_waypoint_idx s3"
  define tc where "tc = calculate_bearing g (latitude (amm_vessel_state s3)) (longitude (amm_vessel_state s3))
                          (wp_latitude wp) (wp_longitude wp)"
  define d where "d = calculate_distance_haversine g (latitude (amm_vessel_state s3)) (longitude (amm_vessel_state s3))
                          (wp_latitude wp) (wp_longitude wp)"
  define v1 where "v1 = adjust_speed_and_course (amm_config s3) wp tc d dt (amm_vessel_state s3)"
  have "speed (amm_vessel_state s') = speed v1 \<and> course (amm_vessel_state s') = course v1"
    using assms U
    unfolding amm_step_def Let_def dt_def[symmetric] s1_def[symmetric]
    by (auto simp: s3_def[symmetric] v1_def wp_def tc_def d_def split: if_splits)
  then show ?thesis unfolding v1_def V dt_def by blast
qed

text \<open>
  Claim C9. On every tick of the waypoint-route simulator that returns, with a tick
  duration \<open>dt \<ge> 0\<close> (the value of \<^verbatim>\<open>delta_time_sec or self.update_interval\<close>), whatever
  the bearing, the distance and the waypoint are, the speed changes by at most
  \<open>0.05 * dt\<close> knots and the course changes, along the shorter rotation, by at most
  \<open>2 * dt\<close> degrees.
\<close>

theorem amm_step_rate_limits:
  assumes "amm_step g delta_time_sec amb rnd s = Inr s'"
    and "0 \<le> tick_duration delta_time_sec (amm_update_interval s)"
  shows "\<bar>speed (amm_vessel_state s') - speed (amm_vessel_state s)\<bar>
           \<le> 0.05 * of_int (tick_duration delta_time_sec (amm_update_interval s))
       \<and> \<bar>shortest_rotation (course (amm_vessel_state s)) (course (amm_vessel_state s'))\<bar>
           \<le> 2 * of_int (tick_duration delta_time_sec (amm_update_interval s))"
  using amm_step_vessel[OF assms(1)] adjust_limits[OF assms(2)] by metis


text \<open>
  A tick of 10 s of a vessel heading north at 10 knots whose target bears 35 degrees at
  1300 km: both limits are reached (the speed becomes 10.5 knots, the course 20 degrees).
\<close>

theorem amm_step_rate_limits_witness:
  "\<exists>s'. amm_step (test_geometry 35 1300000) (Some 10) no_ambient
            \<lparr>u_blackout = 0.5, duration_draw = 60\<rparr> sample_ammonia_vessel = Inr s'
     \<and> 0 \<le> tick_duration (Some 10) (amm_update_interval sample_ammonia_vessel)
     \<and> speed (amm_vessel_state sample_ammonia_vessel) = 10
     \<and> speed (amm_vessel_state s') = 10.5
     \<and> course (amm_vessel_state sample_ammonia_vessel) = 0
     \<and> course (amm_vessel_state s') = 20
     \<and> \<bar>speed (amm_vessel_state s') - speed (amm_vessel_state sample_ammonia_vessel)\<bar> \<le> 0.05 * 10
     \<and> \<bar>shortest_rotation (course (amm_vessel_state sample_ammonia_vessel))
           (course (amm_vessel_state s'))\<bar> \<le> 2 * 10"
proof -
  have "\<exists>s'. amm_step (test_geometry 35 1300000) (Some 10) no_ambient
            \<lparr>u_blackout = 0.5, duration_draw = 60\<rparr> sample_ammonia_vessel = Inr s'"
    by (simp add: amm_step_def update_blackout_def tick_duration_def Let_def
        sample_ammonia_vessel_def sample_ammonia_config_def australia_to_japan_def)
  then obtain s' where E: "amm_step (test_geometry 35 1300000) (Some 10) no_ambient
            \<lparr>u_blackout = 0.5, duration_draw = 60\<rparr> sample_ammonia_vessel = Inr s'" ..
  have T: "tick_duration (Some 10) (amm_update_interval sample_ammonia_vessel) = 10"
    by (simp add: tick_duration_def)
  have V: "speed (amm_vessel_state s') = 10.5 \<and> course (amm_vessel_state s') = 20"
    using E
    by (auto simp add: amm_step_def update_blackout_def tick_duration_def Let_def
        sample_ammonia_vessel_def sample_ammonia_config_def australia_to_japan_def
        adjust_speed_and_course_def test_geometry_def py_fmod_def no_ambient_def)
  have V0: "speed (amm_vessel_state sample_ammonia_vessel) = 10"
           "course (amm_vessel_state sample_ammonia_vessel) = 0"
    by (simp_all add: sample_ammonia_vessel_def)
  from amm_step_rate_limits[OF E] T E V V0 show ?thesis by auto
qed

section \<open>Verification: corridor simulator\<close>

lemma check_zone_frame:
  "smr_vessel_state (check_zone g z s) = smr_vessel_state s"
  "corridor (check_zone g z s) = corridor s"
  "smr_config (check_zone g z s) = smr_config s"
  by (simp_all add: check_zone_def Let_def log_violation_def split: option.split)

lemma check_zone_log:
  "\<exists>ext. violation_log (check_zone g z s) = violation_log s @ ext
         \<and> corridor_deviation_events ext = []"
  by (simp add: check_zone_def Let_def log_violation_def corridor_deviation_events_def
      split: option.split)

lemma check_zones_frame:
  "smr_vessel_state (check_zones g zs s) = smr_vessel_state s
   \<and> corridor (check_zones g zs s) = corridor s
   \<and> smr_config (check_zones g zs s) = smr_config s"
  by (induction zs arbitrary: s) (simp_all add: check_zone_frame)

lemma check_zones_log:
  "\<exists>ext. violation_log (check_zones g zs s) = violation_log s @ ext
         \<and> corridor_deviation_events ext = []"
proof (induction zs arbitrary: s)
  case Nil
  show ?case by (simp add: corridor_deviation_events_def)
next
  case (Cons z zs)
  from check_zone_log[of g z s] obtain e1 where
    E1: "violation_log (check_zone g z s) = violation_log s @ e1" "corridor_deviation_events e1 = []"
    by blast
  from Cons.IH[of "check_zone g z s"] obtain e2 where
    E2: "violation_log (check_zones g zs (check_zone g z s)) = violation_log (check_zone g z s) @ e2"
        "corridor_deviation_events e2 = []"
    by blast
  have "corridor_deviation_events (e1 @ e2) = []"
    using E1(2) E2(2) by (simp add: corridor_deviation_events_def)
  with E1 E2 show ?case by (intro exI[of _ "e1 @ e2"]) simp
qed

lemma check_corridor_deviation_frame:
  "smr_vessel_state (check_corridor_deviation g s) = smr_vessel_state s"
  "corridor (check_corridor_deviation g s) = corridor s"
  "smr_config (check_corridor_deviation g s) = smr_config s"
  "geofence_zones (check_corridor_deviation g s) = geofence_zones s"
  by (simp_all add: check_corridor_deviation_def Let_def log_violation_def)

lemma check_corridor_deviation_log:
  "violation_log (check_corridor_deviation g s) =
     (if beyond_both g s
      then violation_log s @
        [\<lparr>ev_timestamp = smr_simulation_time s, event_type = ''CORRIDOR_DEVIATION'',
          severity = ''CRITICAL'',
          ev_latitude = latitude (smr_vessel_state s), ev_longitude = longitude (smr_vessel_state s),
          details = [(''deviation_distance_m'', Num (cross_track g s)),
                     (''corridor_width_m'', Num (width_m (corridor s))),
                     (''threshold_m'', Num (corridor_deviation_threshold_m (smr_config s)))]\<rparr>]
      else violation_log s)"
  by (simp add: check_corridor_deviation_def Let_def log_violation_def beyond_both_def
      cross_track_def is_within_corridor_def not_le)

lemma smr_navigate_frame:
  "violation_log (fst (smr_navigate g dt amb s)) = violation_log s"
  "corridor (fst (smr_navigate g dt amb s)) = corridor s"
  "smr_config (fst (smr_navigate g dt amb s)) = smr_config s"
  by (simp_all add: smr_navigate_def Let_def)

text \<open>The state after a tick, up to the index of the target point.\<close>

lemma smr_step_result:
  assumes "smr_step g d amb s = Inr s'"
  shows "\<exists>s3. violation_log s3 = violation_log s \<and> corridor s3 = corridor s \<and> smr_config s3 = smr_config s
           \<and> smr_vessel_state s' = smr_vessel_state s3
           \<and> corridor s' = corridor s \<and> smr_config s' = smr_config s
           \<and> violation_log s' =
               violation_log (check_zones g (geofence_zones s3) (check_corridor_deviation g s3))"
proof -
  define dt where "dt = tick_duration d (smr_update_interval s)"
  define s1 where "s1 = s\<lparr>smr_simulation_time := smr_simulation_time s + of_int dt\<rparr>"
  define s2 where "s2 = (if current_centerline_index s1 \<ge> length (centerline_coords (corridor s1))
                then s1\<lparr>current_centerline_index := 0\<rparr> else s1)"
  define s3 where "s3 = fst (smr_navigate g dt amb s2)"
  have F2: "violation_log s2 = violation_log s" "corridor s2 = corridor s" "smr_config s2 = smr_config s"
    by (simp_all add: s2_def s1_def)
  have F3: "violation_log s3 = violation_log s" "corridor s3 = corridor s" "smr_config s3 = smr_config s"
    by (simp_all add: s3_def smr_navigate_frame F2)
  define s5 where "s5 = check_zones g (geofence_zones (check_corridor_deviation g s3)) (check_corridor_deviation g s3)"
  have S': "s' = s5 \<or> s' = s5\<lparr>current_centerline_index := current_centerline_index s5 + 1\<rparr>"
    using assms
    unfolding smr_step_def Let_def dt_def[symmetric] s1_def[symmetric] s2_def[symmetric]
    by (auto simp: case_prod_beta s3_def s5_def split: if_splits)
  have F5: "smr_vessel_state s5 = smr_vessel_state s3" "corridor s5 = corridor s" "smr_config s5 = smr_config s"
    by (simp_all add: s5_def check_zones_frame check_corridor_deviation_frame F3)
  from S' F5 F3 show ?thesis
    by (intro exI[of _ s3]) (auto simp: s5_def check_corridor_deviation_frame)
qed

lemma smr_step_log:
  assumes "smr_step g d amb s = Inr s'"
  shows "\<exists>e ext. corridor_deviation_events ext = []
           \<and> event_type e = ''CORRIDOR_DEVIATION'' \<and> severity e = ''CRITICAL''
           \<and> ev_latitude e = latitude (smr_vessel_state s')
           \<and> ev_longitude e = longitude (smr_vessel_state s')
           \<and> violation_log s' =
               (if beyond_both g s' then violation_log s @ e # ext else violation_log s @ ext)"
proof -
  from smr_step_result[OF assms] obtain s3 where
    F: "violation_log s3 = violation_log s" "corridor s3 = corridor s" "smr_config s3 = smr_config s"
       "smr_vessel_state s' = smr_vessel_state s3" "corridor s' = corridor s" "smr_config s' = smr_config s"
       "violation_log s' = violation_log (check_zones g (geofence_zones s3) (check_corridor_deviation g s3))"
    by blast
  have B: "beyond_both g s' = beyond_both g s3"
    using F by (simp add: beyond_both_def cross_track_def)
  from check_zones_log[of g "geofence_zones s3" "check_corridor_deviation g s3"] obtain ext where
    X: "violation_log s' = violation_log (check_corridor_deviation g s3) @ ext"
       "corridor_deviation_events ext = []"
    using F(7) by auto
  define e where "e = \<lparr>ev_timestamp = smr_simulation_time s3, event_type = ''CORRIDOR_DEVIATION'',
          severity = ''CRITICAL'',
          ev_latitude = latitude (smr_vessel_state s3), ev_longitude = longitude (smr_vessel_state s3),
          details = [(''deviation_distance_m'', Num (cross_track g s3)),
                     (''corridor_width_m'', Num (width_m (corridor s3))),
                     (''threshold_m'', Num (corridor_deviation_threshold_m (smr_config s3)))]\<rparr>"
  have L: "violation_log s' = (if beyond_both g s' then violation_log s @ e # ext else violation_log s @ ext)"
    using X(1) F(1) B by (simp add: check_corridor_deviation_log e_def)
  have E: "event_type e = ''CORRIDOR_DEVIATION''" "severity e = ''CRITICAL''"
     "ev_latitude e = latitude (smr_vessel_state s')" "ev_longitude e = longitude (smr_vessel_state s')"
    by (simp_all add: e_def F(4))
  from X(2) E L show ?thesis by blast
qed

text \<open>
  Claim C3, as amended. After every corridor-simulator tick that returns, if the
  cross-track distance at the updated position exceeds both half the corridor width and
  the deviation threshold, a \<open>CORRIDOR_DEVIATION\<close> violation of severity \<open>CRITICAL\<close> at that
  position is appended to the violation log on that tick; if the distance is at most
  half the corridor width, the tick appends no corridor-deviation violation, whatever
  the threshold is.
\<close>

theorem corridor_deviation_needs_both_bounds:
  assumes "smr_step g d amb s = Inr s'"
  shows "(beyond_both g s' \<longrightarrow>
            (\<exists>e ext. violation_log s' = violation_log s @ e # ext
               \<and> event_type e = ''CORRIDOR_DEVIATION'' \<and> severity e = ''CRITICAL''
               \<and> ev_latitude e = latitude (smr_vessel_state s')
               \<and> ev_longitude e = longitude (smr_vessel_state s')))
       \<and> (cross_track g s' \<le> width_m (corridor s') / 2 \<longrightarrow>
            corridor_deviation_events (violation_log s') = corridor_deviation_events (violation_log s))"
proof -
  from smr_step_log[OF assms] obtain e ext where
    X: "corridor_deviation_events ext = []"
       "event_type e = ''CORRIDOR_DEVIATION''" "severity e = ''CRITICAL''"
       "ev_latitude e = latitude (smr_vessel_state s')"
       "ev_longitude e = longitude (smr_vessel_state s')"
       "violation_log s' =
               (if beyond_both g s' then violation_log s @ e # ext else violation_log s @ ext)"
    by blast
  have A: "beyond_both g s' \<longrightarrow>
            (\<exists>e ext. violation_log s' = violation_log s @ e # ext
               \<and> event_type e = ''CORRIDOR_DEVIATION'' \<and> severity e = ''CRITICAL''
               \<and> ev_latitude e = latitude (smr_vessel_state s')
               \<and> ev_longitude e = longitude (smr_vessel_state s'))"
    using X by auto
  have B: "cross_track g s' \<le> width_m (corridor s') / 2 \<longrightarrow>
            corridor_deviation_events (violation_log s') = corridor_deviation_events (violation_log s)"
  proof
    assume "cross_track g s' \<le> width_m (corridor s') / 2"
    then have "\<not> beyond_both g s'" by (simp add: beyond_both_def)
    with X show "corridor_deviation_events (violation_log s') = corridor_deviation_events (violation_log s)"
      by (simp add: corridor_deviation_events_def)
  qed
  from A B show ?thesis by blast
qed

lemma smr_step_count:
  assumes "smr_step g d amb s = Inr s'"
  shows "length (corridor_deviation_events (violation_log s')) =
           length (corridor_deviation_events (violation_log s)) + (if beyond_both g s' then 1 else 0)"
proof -
  from smr_step_log[OF assms] obtain e ext where
    X: "corridor_deviation_events ext = []"
       "event_type e = ''CORRIDOR_DEVIATION''"
       "violation_log s' =
               (if beyond_both g s' then violation_log s @ e # ext else violation_log s @ ext)"
    by blast
  then show ?thesis by (simp add: corridor_deviation_events_def)
qed

text \<open>
  Claim C4, as amended. The check is made on the level, not on the edge: over any run
  of consecutive ticks that each end beyond both bounds, one corridor-deviation
  violation is logged on every tick, so a run of \<open>n\<close> such ticks logs \<open>n\<close> of them.
\<close>

theorem corridor_deviation_on_every_tick_beyond:
  "all_beyond g ticks s \<Longrightarrow>
     \<exists>s'. smr_steps g ticks s = Inr s'
        \<and> length (corridor_deviation_events (violation_log s')) =
            length (corridor_deviation_events (violation_log s)) + length ticks"
proof (induction ticks arbitrary: s)
  case Nil
  then show ?case by simp
next
  case (Cons t ticks)
  obtain d amb where T: "t = (d, amb)" by (cases t)
  from Cons.prems T obtain s1 where
    S1: "smr_step g d amb s = Inr s1" "beyond_both g s1" "all_beyond g ticks s1"
    by (cases "smr_step g d amb s") auto
  from Cons.IH[OF S1(3)] obtain s' where
    S': "smr_steps g ticks s1 = Inr s'"
        "length (corridor_deviation_events (violation_log s')) =
            length (corridor_deviation_events (violation_log s1)) + length ticks"
    by blast
  from smr_step_count[OF S1(1)] S1(2) S' S1(1) T show ?case by simp
qed



lemma equator_vessel_eq:
  "equator_vessel =
     \<lparr>smr_config = SMRVesselConfig_default, corridor = equator_corridor, geofence_zones = [],
      smr_update_interval = 3600,
      smr_vessel_state =
        \<lparr>mmsi = ''999999999'', vessel_name = ''SMR-PIONEER'', vessel_type = ''SMR'',
         latitude = 0, longitude = 0, course = 90, speed = 22,
         heading = Some 90, timestamp = 0, position_accuracy = 1,
         vessel_length = Some 400, vessel_width = Some 59,
         draught = Some 16, destination = Some ''Equator'',
         eta = None, nav_status = None, is_simulated = True,
         data_source = ''SIMULATED_SMR''\<rparr>,
      current_centerline_index = 1,
      smr_simulation_time = 0,
      violation_log = [],
      smr_stats = \<lparr>total_distance_traveled_m = 0, corridor_deviations = 0,
                   geofence_violations = 0, speed_violations = 0\<rparr>\<rparr>"
  by (simp add: equator_vessel_def SMRVesselSimulator_init_def SMRVesselConfig_default_def
      equator_corridor_def equator_geometry_def SMR_MMSI_def Let_def)

lemma smr_step_returns:
  assumes "centerline_coords (corridor s) \<noteq> []"
  shows "\<exists>s'. smr_step g d amb s = Inr s'"
  using assms unfolding smr_step_def Let_def by (simp add: case_prod_beta)

lemma smr_step_vessel:
  assumes "smr_step g d amb s = Inr s'"
  shows "\<exists>s2. smr_vessel_state s2 = smr_vessel_state s
           \<and> smr_vessel_state s' =
               smr_vessel_state (fst (smr_navigate g (tick_duration d (smr_update_interval s)) amb s2))"
proof -
  define dt where "dt = tick_duration d (smr_update_interval s)"
  define s1 where "s1 = s\<lparr>smr_simulation_time := smr_simulation_time s + of_int dt\<rparr>"
  define s2 where "s2 = (if current_centerline_index s1 \<ge> length (centerline_coords (corridor s1))
                then s1\<lparr>current_centerline_index := 0\<rparr> else s1)"
  define s3 where "s3 = fst (smr_navigate g dt amb s2)"
  define s5 where "s5 = check_zones g (geofence_zones (check_corridor_deviation g s3)) (check_corridor_deviation g s3)"
  have S': "s' = s5 \<or> s' = s5\<lparr>current_centerline_index := current_centerline_index s5 + 1\<rparr>"
    using assms
    unfolding smr_step_def Let_def dt_def[symmetric] s1_def[symmetric] s2_def[symmetric]
    by (auto simp: case_prod_beta s3_def s5_def split: if_splits)
  have "smr_vessel_state s5 = smr_vessel_state s3"
    by (simp add: s5_def check_zones_frame check_corridor_deviation_frame)
  with S' have "smr_vessel_state s' = smr_vessel_state s3" by auto
  moreover have "smr_vessel_state s2 = smr_vessel_state s" by (simp add: s2_def s1_def)
  ultimately show ?thesis unfolding s3_def dt_def by blast
qed

lemma check_zones_interval: "smr_update_interval (check_zones g zs x) = smr_update_interval x"
  by (induction zs arbitrary: x)
     (simp_all add: check_zone_def Let_def log_violation_def split: option.split)

lemma check_corridor_deviation_interval:
  "smr_update_interval (check_corridor_deviation g x) = smr_update_interval x"
  by (simp add: check_corridor_deviation_def Let_def log_violation_def)

lemma smr_navigate_interval:
  "smr_update_interval (fst (smr_navigate g dt amb x)) = smr_update_interval x"
  by (simp add: smr_navigate_def Let_def)

lemma smr_step_interval:
  assumes "smr_step g d amb s = Inr s'"
  shows "smr_update_interval s' = smr_update_interval s"
proof -
  define dt where "dt = tick_duration d (smr_update_interval s)"
  define s1 where "s1 = s\<lparr>smr_simulation_time := smr_simulation_time s + of_int dt\<rparr>"
  define s2 where "s2 = (if current_centerline_index s1 \<ge> length (centerline_coords (corridor s1))
                then s1\<lparr>current_centerline_index := 0\<rparr> else s1)"
  define s3 where "s3 = fst (smr_navigate g dt amb s2)"
  define s5 where "s5 = check_zones g (geofence_zones (check_corridor_deviation g s3)) (check_corridor_deviation g s3)"
  have S': "s' = s5 \<or> s' = s5\<lparr>current_centerline_index := current_centerline_index s5 + 1\<rparr>"
    using assms
    unfolding smr_step_def Let_def dt_def[symmetric] s1_def[symmetric] s2_def[symmetric]
    by (auto simp: case_prod_beta s3_def s5_def split: if_splits)
  have "smr_update_interval s5 = smr_update_interval s"
    by (simp add: s5_def s3_def s2_def s1_def check_zones_interval check_corridor_deviation_interval
        smr_navigate_interval)
  with S' show ?thesis by auto
qed

lemma equator_navigate_latitude:
  "latitude (smr_vessel_state (fst (smr_navigate equator_geometry dt (northward_current c) s2))) =
     latitude (smr_vessel_state s2) + c * 0.5 * of_int dt / 100000"
  by (simp add: smr_navigate_def equator_geometry_def northward_current_def Let_def)

lemma equator_step_latitude:
  assumes "smr_step equator_geometry d (northward_current c) s = Inr s'"
  shows "latitude (smr_vessel_state s') =
           latitude (smr_vessel_state s) + c * 0.5 * of_int (tick_duration d (smr_update_interval s)) / 100000"
proof -
  from smr_step_vessel[OF assms] obtain s2 where
    V: "smr_vessel_state s2 = smr_vessel_state s"
       "smr_vessel_state s' = smr_vessel_state (fst (smr_navigate equator_geometry
           (tick_duration d (smr_update_interval s)) (northward_current c) s2))"
    by blast
  show ?thesis
    unfolding V(2) equator_navigate_latitude V(1) ..
qed

lemma equator_cross_track:
  "cross_track equator_geometry s = 100000 * \<bar>latitude (smr_vessel_state s)\<bar>"
  by (simp add: cross_track_def distance_from_centerline_def equator_geometry_def Let_def)

lemma equator_vessel_facts:
  "latitude (smr_vessel_state equator_vessel) = 0"
  "smr_update_interval equator_vessel = 3600"
  "corridor equator_vessel = equator_corridor"
  "smr_config equator_vessel = SMRVesselConfig_default"
  "violation_log equator_vessel = []"
  by (simp_all add: equator_vessel_eq)

text \<open>One and two ticks of one hour from the start of the corridor, set north by a current of \<open>c\<close> knots.\<close>

lemma equator_one_tick:
  "\<exists>s1. smr_step equator_geometry None (northward_current c) equator_vessel = Inr s1
        \<and> cross_track equator_geometry s1 = 100000 * \<bar>c * 0.018\<bar>
        \<and> corridor s1 = equator_corridor \<and> smr_config s1 = SMRVesselConfig_default
        \<and> smr_update_interval s1 = 3600
        \<and> latitude (smr_vessel_state s1) = c * 0.018"
proof -
  have "centerline_coords (corridor equator_vessel) \<noteq> []"
    by (simp add: equator_vessel_facts equator_corridor_def)
  from smr_step_returns[OF this] obtain s1 where
    E: "smr_step equator_geometry None (northward_current c) equator_vessel = Inr s1" by blast
  have L: "latitude (smr_vessel_state s1) = c * 0.018"
    using equator_step_latitude[OF E] by (simp add: equator_vessel_facts tick_duration_def)
  from smr_step_result[OF E] have F: "corridor s1 = equator_corridor" "smr_config s1 = SMRVesselConfig_default"
    by (auto simp: equator_vessel_facts)
  from E L F smr_step_interval[OF E] show ?thesis
    by (simp add: equator_cross_track equator_vessel_facts)
qed


lemma equator_second_tick:
  assumes "corridor s1 = equator_corridor" "smr_update_interval s1 = 3600"
  shows "\<exists>s2. smr_step equator_geometry None (northward_current c) s1 = Inr s2
        \<and> cross_track equator_geometry s2 = 100000 * \<bar>latitude (smr_vessel_state s1) + c * 0.018\<bar>
        \<and> corridor s2 = equator_corridor \<and> smr_config s2 = smr_config s1"
proof -
  have "centerline_coords (corridor s1) \<noteq> []"
    by (simp add: assms equator_corridor_def)
  from smr_step_returns[OF this] obtain s2 where
    E: "smr_step equator_geometry None (northward_current c) s1 = Inr s2" by blast
  have L: "latitude (smr_vessel_state s2) = latitude (smr_vessel_state s1) + c * 0.018"
    using equator_step_latitude[OF E] by (simp add: assms tick_duration_def)
  from smr_step_result[OF E] have F: "corridor s2 = equator_corridor" "smr_config s2 = smr_config s1"
    by (auto simp: assms)
  from E L F show ?thesis by (simp add: equator_cross_track)
qed

lemma equator_bounds:
  "width_m equator_corridor / 2 = 5000" "corridor_deviation_threshold_m SMRVesselConfig_default = 2000"
  by (simp_all add: equator_corridor_def SMRVesselConfig_default_def)

text \<open>
  Claim C3 as stated fails: in a corridor of the default width (10 km), a vessel set
  3600 m off the centreline by a current of 2 knots during a tick of one hour is beyond
  the threshold of 2000 m, and the tick logs no corridor deviation.
\<close>

theorem deviation_inside_wide_corridor_counterexample:
  "\<not> isl (smr_step equator_geometry None (northward_current 2) equator_vessel)
   \<and> cross_track equator_geometry
        (projr (smr_step equator_geometry None (northward_current 2) equator_vessel)) = 3600
   \<and> corridor_deviation_threshold_m
        (smr_config (projr (smr_step equator_geometry None (northward_current 2) equator_vessel))) = 2000
   \<and> corridor_deviation_events
        (violation_log (projr (smr_step equator_geometry None (northward_current 2) equator_vessel))) = []"
proof -
  from equator_one_tick[of 2] obtain s1 where
    E: "smr_step equator_geometry None (northward_current 2) equator_vessel = Inr s1"
    and C: "cross_track equator_geometry s1 = 3600"
    and F: "corridor s1 = equator_corridor" "smr_config s1 = SMRVesselConfig_default"
    by auto
  have "\<not> beyond_both equator_geometry s1"
    by (simp add: beyond_both_def C F equator_bounds)
  with smr_step_count[OF E] have "corridor_deviation_events (violation_log s1) = []"
    by (simp add: equator_vessel_facts corridor_deviation_events_def)
  with E C F show ?thesis by (simp add: equator_bounds)
qed

text \<open>
  Both cases on the equator corridor: a current of 6 knots sets the vessel 10800 m off
  (logged), a current of 2 knots 3600 m off (inside the corridor, not logged).
\<close>

theorem corridor_deviation_needs_both_bounds_witness:
  "(\<exists>s1. smr_step equator_geometry None (northward_current 6) equator_vessel = Inr s1
       \<and> beyond_both equator_geometry s1
       \<and> (\<exists>e ext. violation_log s1 = violation_log equator_vessel @ e # ext
               \<and> event_type e = ''CORRIDOR_DEVIATION'' \<and> severity e = ''CRITICAL''))
   \<and> (\<exists>s2. smr_step equator_geometry None (northward_current 2) equator_vessel = Inr s2
       \<and> cross_track equator_geometry s2 \<le> width_m (corridor s2) / 2
       \<and> corridor_deviation_events (violation_log s2) =
           corridor_deviation_events (violation_log equator_vessel))"
proof -
  from equator_one_tick[of 6] obtain s1 where
    E1: "smr_step equator_geometry None (northward_current 6) equator_vessel = Inr s1"
    and C1: "cross_track equator_geometry s1 = 10800"
    and F1: "corridor s1 = equator_corridor" "smr_config s1 = SMRVesselConfig_default"
    by auto
  have B1: "beyond_both equator_geometry s1"
    by (simp add: beyond_both_def C1 F1 equator_bounds)
  from equator_one_tick[of 2] obtain s2 where
    E2: "smr_step equator_geometry None (northward_current 2) equator_vessel = Inr s2"
    and C2: "cross_track equator_geometry s2 = 3600"
    and F2: "corridor s2 = equator_corridor" "smr_config s2 = SMRVesselConfig_default"
    by auto
  have B2: "cross_track equator_geometry s2 \<le> width_m (corridor s2) / 2"
    by (simp add: C2 F2 equator_bounds)
  from corridor_deviation_needs_both_bounds[OF E1] B1
  have P1: "\<exists>e ext. violation_log s1 = violation_log equator_vessel @ e # ext
               \<and> event_type e = ''CORRIDOR_DEVIATION'' \<and> severity e = ''CRITICAL''"
    by blast
  from corridor_deviation_needs_both_bounds[OF E2] B2
  have P2: "corridor_deviation_events (violation_log s2) =
           corridor_deviation_events (violation_log equator_vessel)"
    by blast
  from E1 B1 P1 E2 B2 P2 show ?thesis by blast
qed

lemma equator_two_ticks_6:
  "\<exists>s1 s2. smr_step equator_geometry None (northward_current 6) equator_vessel = Inr s1
     \<and> smr_step equator_geometry None (northward_current 6) s1 = Inr s2
     \<and> cross_track equator_geometry s1 = 10800 \<and> cross_track equator_geometry s2 = 21600
     \<and> beyond_both equator_geometry s1 \<and> beyond_both equator_geometry s2"
proof -
  from equator_one_tick[of 6] obtain s1 where
    E1: "smr_step equator_geometry None (northward_current 6) equator_vessel = Inr s1"
    and C1: "cross_track equator_geometry s1 = 10800"
    and F1: "corridor s1 = equator_corridor" "smr_config s1 = SMRVesselConfig_default"
            "smr_update_interval s1 = 3600" "latitude (smr_vessel_state s1) = 0.108"
    by auto
  from equator_second_tick[OF F1(1) F1(3), of 6] obtain s2 where
    E2: "smr_step equator_geometry None (northward_current 6) s1 = Inr s2"
    and C2: "cross_track equator_geometry s2 = 21600"
    and F2: "corridor s2 = equator_corridor" "smr_config s2 = SMRVesselConfig_default"
    by (auto simp: F1)
  have "beyond_both equator_geometry s1" "beyond_both equator_geometry s2"
    by (simp_all add: beyond_both_def C1 C2 F1 F2 equator_bounds)
  with E1 E2 C1 C2 show ?thesis by blast
qed

text \<open>
  Claim C4 as stated fails: the vessel starts on the centreline, a current of 6 knots
  sets it 10800 m off in the first hour and 21600 m off in the second; the distance
  crosses the threshold once and stays above it, and two corridor deviations are logged.
\<close>

theorem deviation_logged_again_counterexample:
  "cross_track equator_geometry equator_vessel = 0
   \<and> corridor_deviation_threshold_m (smr_config equator_vessel) = 2000
   \<and> cross_track equator_geometry
        (projr (smr_steps equator_geometry [(None, northward_current 6)] equator_vessel)) = 10800
   \<and> cross_track equator_geometry
        (projr (smr_steps equator_geometry
           [(None, northward_current 6), (None, northward_current 6)] equator_vessel)) = 21600
   \<and> length (corridor_deviation_events (violation_log
        (projr (smr_steps equator_geometry
           [(None, northward_current 6), (None, northward_current 6)] equator_vessel)))) = 2"
proof -
  from equator_two_ticks_6 obtain s1 s2 where
    E: "smr_step equator_geometry None (northward_current 6) equator_vessel = Inr s1"
       "smr_step equator_geometry None (northward_current 6) s1 = Inr s2"
    and C: "cross_track equator_geometry s1 = 10800" "cross_track equator_geometry s2 = 21600"
    and B: "beyond_both equator_geometry s1" "beyond_both equator_geometry s2"
    by blast
  have N: "length (corridor_deviation_events (violation_log s2)) = 2"
    using smr_step_count[OF E(1)] smr_step_count[OF E(2)] B
    by (simp add: equator_vessel_facts corridor_deviation_events_def)
  from E C N show ?thesis
    by (simp add: equator_cross_track equator_vessel_facts equator_bounds)
qed

text \<open>The same run of two ticks: both end beyond both bounds, and two violations are added.\<close>

theorem corridor_deviation_on_every_tick_beyond_witness:
  "all_beyond equator_geometry [(None, northward_current 6), (None, northward_current 6)] equator_vessel
   \<and> (\<exists>s'. smr_steps equator_geometry
              [(None, northward_current 6), (None, northward_current 6)] equator_vessel = Inr s'
        \<and> length (corridor_deviation_events (violation_log s')) =
            length (corridor_deviation_events (violation_log equator_vessel)) + 2)"
proof -
  from equator_two_ticks_6 obtain s1 s2 where
    E: "smr_step equator_geometry None (northward_current 6) equator_vessel = Inr s1"
       "smr_step equator_geometry None (northward_current 6) s1 = Inr s2"
    and B: "beyond_both equator_geometry s1" "beyond_both equator_geometry s2"
    by blast
  have A: "all_beyond equator_geometry [(None, northward_current 6), (None, northward_current 6)] equator_vessel"
    using E B by simp
  from corridor_deviation_on_every_tick_beyond[OF A] A show ?thesis by simp
qed

section \<open>Verification: AIS ingest client\<close>

lemma new_position_lookup:
  "new_position r (fst (lookup_or_create clk r c)) = reported_position c r"
  by (simp add: new_position_def lookup_or_create_def reported_position_def new_vessel_def Let_def
      split: option.split)

lemma handle_accepted:
  assumes "accepted c r"
  shows "handle_position_report clk r c =
           publish clk r (fst (lookup_or_create clk r c)) (snd (lookup_or_create clk r c))"
proof -
  from assms have P: "new_position r (fst (lookup_or_create clk r c)) \<noteq> (0, 0)"
    by (simp add: accepted_def new_position_lookup)
  obtain a b where AB: "new_position r (fst (lookup_or_create clk r c)) = (a, b)"
    by (cases "new_position r (fst (lookup_or_create clk r c))")
  with P have "\<not> (a = 0 \<and> b = 0)" by simp
  with assms AB show ?thesis
    unfolding handle_position_report_def accepted_def admitted_def Let_def
    by (auto simp: case_prod_beta)
qed

lemma handle_rejected:
  assumes "\<not> accepted c r"
  shows "handle_position_report clk r c = count_filtered c
       \<or> handle_position_report clk r c = count_filtered (snd (lookup_or_create clk r c))"
proof -
  obtain a b where AB: "new_position r (fst (lookup_or_create clk r c)) = (a, b)"
    by (cases "new_position r (fst (lookup_or_create clk r c))")
  with assms show ?thesis
    unfolding handle_position_report_def accepted_def admitted_def Let_def
    using new_position_lookup[of r clk c]
    by (auto simp: case_prod_beta)
qed

lemma lookup_or_create_frame:
  "message_queue (snd (lookup_or_create clk r c)) = message_queue c"
  "max_queue_size (snd (lookup_or_create clk r c)) = max_queue_size c"
  "ais_stats (snd (lookup_or_create clk r c)) = ais_stats c"
  by (simp_all add: lookup_or_create_def split: option.split)

lemma count_filtered_frame:
  "message_queue (count_filtered c) = message_queue c"
  "max_queue_size (count_filtered c) = max_queue_size c"
  "vessel_cache (count_filtered c) = vessel_cache c"
  by (simp_all add: count_filtered_def)

lemma publish_queue:
  "message_queue (publish clk r v c1) =
     (if queue_full c1 then tl (message_queue c1) @ [report_mmsi r] else message_queue c1 @ [report_mmsi r])"
  "max_queue_size (publish clk r v c1) = max_queue_size c1"
  by (simp_all add: publish_def Let_def enqueue_def queue_full_def)

lemma publish_stats:
  "messages_received (ais_stats (publish clk r v c1)) = messages_received (ais_stats c1)"
  "messages_filtered (ais_stats (publish clk r v c1)) = messages_filtered (ais_stats c1)"
  "parse_errors (ais_stats (publish clk r v c1)) = parse_errors (ais_stats c1)"
  by (simp_all add: publish_def Let_def enqueue_def)

lemma publish_cache:
  "vessel_cache (publish clk r v c1) = AList.update (report_mmsi r) (updated_vessel clk r v) (vessel_cache c1)"
  by (simp add: publish_def Let_def enqueue_def)


lemma lookup_or_create_cache:
  "vessel_cache (snd (lookup_or_create clk r c)) = vessel_cache c
   \<or> vessel_cache (snd (lookup_or_create clk r c)) = vessel_cache c @ [(report_mmsi r, new_vessel clk c r)]"
  by (simp add: lookup_or_create_def split: option.split)

lemma lookup_or_create_vessel:
  "fst (lookup_or_create clk r c) =
     (case map_of (vessel_cache c) (report_mmsi r) of Some v \<Rightarrow> v | None \<Rightarrow> new_vessel clk c r)"
  by (simp add: lookup_or_create_def split: option.split)

lemma new_vessel_in_range: "course_speed_in_range (new_vessel clk c r)"
  by (simp add: course_speed_in_range_def new_vessel_def)

lemma list_all_update:
  "list_all Q xs \<Longrightarrow> Q (k, v) \<Longrightarrow> list_all Q (AList.update k v xs)"
  by (induction xs) auto

lemma cached_in_range:
  assumes "cache_in_range c" "map_of (vessel_cache c) k = Some v"
  shows "course_speed_in_range v"
proof -
  from assms(2) have "(k, v) \<in> set (vessel_cache c)" by (rule map_of_SomeD)
  with assms(1) show ?thesis by (auto simp: cache_in_range_def list_all_iff)
qed

lemma lookup_or_create_in_range:
  assumes "cache_in_range c"
  shows "cache_in_range (snd (lookup_or_create clk r c))"
    and "course_speed_in_range (fst (lookup_or_create clk r c))"
proof -
  show "cache_in_range (snd (lookup_or_create clk r c))"
    using assms lookup_or_create_cache[of clk r c] new_vessel_in_range[of clk c r]
    by (auto simp: cache_in_range_def)
  show "course_speed_in_range (fst (lookup_or_create clk r c))"
    using assms cached_in_range[OF assms] new_vessel_in_range[of clk c r]
    by (simp add: lookup_or_create_vessel split: option.split)
qed

lemma updated_vessel_in_range:
  assumes "course_speed_in_range v" "report_in_range r"
  shows "course_speed_in_range (updated_vessel clk r v)"
  using assms
  by (auto simp: course_speed_in_range_def report_in_range_def updated_vessel_def split: option.splits)

lemma handle_in_range:
  assumes "cache_in_range c" "report_in_range r"
  shows "cache_in_range (handle_position_report clk r c)"
proof (cases "accepted c r")
  case True
  have "cache_in_range (publish clk r (fst (lookup_or_create clk r c)) (snd (lookup_or_create clk r c)))"
    unfolding cache_in_range_def publish_cache
    using lookup_or_create_in_range[OF assms(1), of clk r] assms(2)
    by (intro list_all_update) (simp_all add: cache_in_range_def updated_vessel_in_range)
  with handle_accepted[OF True] show ?thesis by simp
next
  case False
  from handle_rejected[OF False, of clk] lookup_or_create_in_range(1)[OF assms(1), of clk r] assms(1)
  show ?thesis by (auto simp: cache_in_range_def count_filtered_frame)
qed

lemma process_message_in_range:
  assumes "cache_in_range c" "frame_in_range f"
  shows "cache_in_range (process_message f c)"
proof (cases f)
  case Invalid_JSON
  with assms show ?thesis by (simp add: process_message_def cache_in_range_def Let_def)
next
  case (Position_Report clk r)
  let ?c1 = "c\<lparr>ais_stats := (ais_stats c)\<lparr>messages_received := messages_received (ais_stats c) + 1\<rparr>\<rparr>"
  have "cache_in_range ?c1" using assms(1) by (simp add: cache_in_range_def)
  moreover have "report_in_range r" using assms(2) Position_Report by (simp add: frame_in_range_def)
  ultimately have "cache_in_range (handle_position_report clk r ?c1)" by (rule handle_in_range)
  with Position_Report show ?thesis by (simp add: process_message_def Let_def)
next
  case Other_Type
  with assms show ?thesis by (simp add: process_message_def cache_in_range_def Let_def)
qed

lemma process_messages_in_range:
  "cache_in_range c \<Longrightarrow> list_all frame_in_range fs \<Longrightarrow> cache_in_range (process_messages fs c)"
  by (induction fs arbitrary: c) (simp_all add: process_message_in_range)

lemma init_in_range: "cache_in_range (AISStreamClient_init cb q mv fb)"
  by (simp add: cache_in_range_def AISStreamClient_init_def)

lemma accepted_course_speed:
  assumes "accepted c r"
  shows "map_option course (map_of (vessel_cache (handle_position_report clk r c)) (report_mmsi r)) =
           Some (case Cog r of Some x \<Rightarrow> x
                 | None \<Rightarrow> (case map_of (vessel_cache c) (report_mmsi r) of Some w \<Rightarrow> course w | None \<Rightarrow> 0))"
    and "map_option speed (map_of (vessel_cache (handle_position_report clk r c)) (report_mmsi r)) =
           Some (case Sog r of Some x \<Rightarrow> x
                 | None \<Rightarrow> (case map_of (vessel_cache c) (report_mmsi r) of Some w \<Rightarrow> speed w | None \<Rightarrow> 0))"
  unfolding handle_accepted[OF assms] publish_cache
  by (simp_all add: update_conv' updated_vessel_def lookup_or_create_vessel new_vessel_def
      split: option.split)


lemmas ais_eval =
  handle_position_report_def lookup_or_create_def new_position_def publish_def updated_vessel_def
  enqueue_def queue_full_def count_filtered_def new_vessel_def is_autonomous_def
  is_cargo_tanker_type_def report_mmsi_def report_at_def default_client_def small_queue_client_def
  AISStreamClient_init_def AUTONOMOUS_SHIP_MMSI_LIST_def clock0_def Let_def

text \<open>
  Claim C1. The claim is that a position report at \<open>(0, 0)\<close> is dropped without touching
  the cache, so that no cached record has latitude 0 and longitude 0. The code at the
  first report of a vessel of the autonomous list, sent at \<open>(0, 0)\<close> to a client with an
  empty cache: the report is counted as filtered, and the cache now holds a record of
  that vessel at latitude 0 and longitude 0.
\<close>

theorem null_island_first_report_is_cached:
  "vessel_cache default_client = []
   \<and> map_option latitude (map_of (vessel_cache
        (handle_position_report clock0 (report_at ''440326000'' 0 0 88 15.2) default_client))
        ''440326000'') = Some 0
   \<and> map_option longitude (map_of (vessel_cache
        (handle_position_report clock0 (report_at ''440326000'' 0 0 88 15.2) default_client))
        ''440326000'') = Some 0
   \<and> messages_filtered (ais_stats
        (handle_position_report clock0 (report_at ''440326000'' 0 0 88 15.2) default_client)) = 1"
  by (simp add: ais_eval)

text \<open>
  Claim C2 as stated fails: a report with \<open>Cog = 360\<close> (the value that AIS uses for
  "not available") and \<open>Sog = -1\<close> is stored with course 360 and speed -1.
\<close>

theorem course_speed_stored_unchanged_counterexample:
  "map_option course (map_of (vessel_cache
        (process_messages [Position_Report clock0 (report_at ''440326000'' 12.3 45.6 360 (-1))] default_client))
        ''440326000'') = Some 360
   \<and> map_option speed (map_of (vessel_cache
        (process_messages [Position_Report clock0 (report_at ''440326000'' 12.3 45.6 360 (-1))] default_client))
        ''440326000'') = Some (-1)"
  by (simp add: process_message_def ais_eval)

lemma accepted_first_report:
  "accepted default_client (report_at ''440326000'' 12.3 45.6 88 15.2)"
  by (simp add: accepted_def admitted_def reported_position_def ais_eval)

lemma handle_queue_bound:
  assumes "0 < max_queue_size c" "int (length (message_queue c)) \<le> max_queue_size c"
  shows "int (length (message_queue (handle_position_report clk r c))) \<le> max_queue_size c
       \<and> max_queue_size (handle_position_report clk r c) = max_queue_size c"
proof (cases "accepted c r")
  case True
  let ?c1 = "snd (lookup_or_create clk r c)"
  have Q: "message_queue ?c1 = message_queue c" "max_queue_size ?c1 = max_queue_size c"
    by (simp_all add: lookup_or_create_frame)
  have "message_queue ?c1 \<noteq> []" if "queue_full ?c1"
    using that Q assms by (auto simp: queue_full_def)
  then show ?thesis
    unfolding handle_accepted[OF True] publish_queue
    using assms Q by (auto simp: queue_full_def)
next
  case False
  from handle_rejected[OF False, of clk] assms show ?thesis
    by (auto simp: count_filtered_frame lookup_or_create_frame)
qed

lemma process_message_queue_bound:
  assumes "0 < max_queue_size c" "int (length (message_queue c)) \<le> max_queue_size c"
  shows "int (length (message_queue (process_message f c))) \<le> max_queue_size c
       \<and> max_queue_size (process_message f c) = max_queue_size c"
proof (cases f)
  case (Position_Report clk r)
  let ?c1 = "c\<lparr>ais_stats := (ais_stats c)\<lparr>messages_received := messages_received (ais_stats c) + 1\<rparr>\<rparr>"
  have "0 < max_queue_size ?c1" "int (length (message_queue ?c1)) \<le> max_queue_size ?c1"
    using assms by simp_all
  from handle_queue_bound[OF this, of clk r] Position_Report show ?thesis
    by (simp add: process_message_def Let_def)
qed (use assms in \<open>simp_all add: process_message_def Let_def\<close>)

lemma process_messages_queue_bound:
  "0 < max_queue_size c \<Longrightarrow> int (length (message_queue c)) \<le> max_queue_size c \<Longrightarrow>
     int (length (message_queue (process_messages fs c))) \<le> max_queue_size c"
proof (induction fs arbitrary: c)
  case Nil
  then show ?case by simp
next
  case (Cons f fs)
  from process_message_queue_bound[OF Cons.prems, of f]
  have B: "int (length (message_queue (process_message f c))) \<le> max_queue_size (process_message f c)"
          "0 < max_queue_size (process_message f c)"
          "max_queue_size (process_message f c) = max_queue_size c"
    using Cons.prems by simp_all
  from Cons.IH[OF B(2) B(1)] B(3) show ?case by simp
qed

lemma accepted_full_queue:
  assumes "accepted c r" "queue_full c"
  shows "message_queue (handle_position_report clk r c) = tl (message_queue c) @ [report_mmsi r]"
    and "length (message_queue (handle_position_report clk r c)) = length (message_queue c)"
    and "messages_received (ais_stats (handle_position_report clk r c)) = messages_received (ais_stats c)"
    and "messages_filtered (ais_stats (handle_position_report clk r c)) = messages_filtered (ais_stats c)"
    and "parse_errors (ais_stats (handle_position_report clk r c)) = parse_errors (ais_stats c)"
proof -
  let ?c1 = "snd (lookup_or_create clk r c)"
  have Q: "message_queue ?c1 = message_queue c" "max_queue_size ?c1 = max_queue_size c"
          "ais_stats ?c1 = ais_stats c"
    by (simp_all add: lookup_or_create_frame)
  have F: "queue_full ?c1" using assms(2) Q by (simp add: queue_full_def)
  have N: "message_queue c \<noteq> []" using assms(2) by (auto simp: queue_full_def)
  show "message_queue (handle_position_report clk r c) = tl (message_queue c) @ [report_mmsi r]"
    unfolding handle_accepted[OF assms(1)] publish_queue using F Q by simp
  then show "length (message_queue (handle_position_report clk r c)) = length (message_queue c)"
    using N by simp
  show "messages_received (ais_stats (handle_position_report clk r c)) = messages_received (ais_stats c)"
       "messages_filtered (ais_stats (handle_position_report clk r c)) = messages_filtered (ais_stats c)"
       "parse_errors (ais_stats (handle_position_report clk r c)) = parse_errors (ais_stats c)"
    unfolding handle_accepted[OF assms(1)] publish_stats Q by simp_all
qed

text \<open>
  Claim C6, as amended. When a report that passes the filters meets a full queue, the
  oldest entry is removed and the vessel is appended, the size stays the same, and none
  of the counters \<open>messages_received\<close>, \<open>messages_filtered\<close> and \<open>parse_errors\<close> changes:
  the loss is not counted. For a capacity \<open>N > 0\<close> the size of the queue never exceeds
  \<open>N\<close> after any sequence of frames on a new client.
\<close>

theorem queue_drops_head_without_count:
  "(accepted c r \<and> queue_full c \<longrightarrow>
      message_queue (handle_position_report clk r c) = tl (message_queue c) @ [report_mmsi r]
    \<and> length (message_queue (handle_position_report clk r c)) = length (message_queue c)
    \<and> messages_received (ais_stats (handle_position_report clk r c)) = messages_received (ais_stats c)
    \<and> messages_filtered (ais_stats (handle_position_report clk r c)) = messages_filtered (ais_stats c)
    \<and> parse_errors (ais_stats (handle_position_report clk r c)) = parse_errors (ais_stats c))
   \<and> (0 < N \<longrightarrow>
        int (length (message_queue (process_messages fs (AISStreamClient_init cb N mv fb)))) \<le> N)"
proof -
  have "0 < N \<longrightarrow>
        int (length (message_queue (process_messages fs (AISStreamClient_init cb N mv fb)))) \<le> N"
  proof
    assume "0 < N"
    then have "0 < max_queue_size (AISStreamClient_init cb N mv fb)"
       "int (length (message_queue (AISStreamClient_init cb N mv fb)))
          \<le> max_queue_size (AISStreamClient_init cb N mv fb)"
      by (simp_all add: AISStreamClient_init_def)
    from process_messages_queue_bound[OF this, of fs]
    show "int (length (message_queue (process_messages fs (AISStreamClient_init cb N mv fb)))) \<le> N"
      by (simp add: AISStreamClient_init_def)
  qed
  with accepted_full_queue[of c r clk] show ?thesis by blast
qed


lemma lookup_or_create_callback:
  "message_callback (snd (lookup_or_create clk r c)) = message_callback c"
  by (simp add: lookup_or_create_def split: option.split)

lemma publish_stats_no_callback:
  "message_callback c1 = None \<Longrightarrow>
     ais_stats (publish clk r v c1) = (ais_stats c1)\<lparr>last_update := Some (t_stats clk)\<rparr>"
  by (simp add: publish_def Let_def enqueue_def)

lemma small_queue_first:
  "handle_position_report clock0 (report_at ''440326000'' 12.3 45.6 88 15.2) small_queue_client =
     small_queue_client
       \<lparr>vessel_cache := [(''440326000'',
            updated_vessel clock0 (report_at ''440326000'' 12.3 45.6 88 15.2)
              (new_vessel clock0 small_queue_client (report_at ''440326000'' 12.3 45.6 88 15.2)))],
        message_queue := [''440326000''],
        ais_stats := (ais_stats small_queue_client)\<lparr>last_update := Some 0\<rparr>\<rparr>"
  by (simp add: handle_position_report_def lookup_or_create_def new_position_def publish_def
      enqueue_def queue_full_def is_autonomous_def is_cargo_tanker_type_def report_mmsi_def
      report_at_def small_queue_client_def AISStreamClient_init_def AUTONOMOUS_SHIP_MMSI_LIST_def
      clock0_def Let_def new_vessel_def updated_vessel_def)

lemma small_queue_second_accepted:
  "accepted (handle_position_report clock0 (report_at ''440326000'' 12.3 45.6 88 15.2) small_queue_client)
     (report_at ''257646000'' 59.1 10.2 180 6)"
  "queue_full (handle_position_report clock0 (report_at ''440326000'' 12.3 45.6 88 15.2) small_queue_client)"
  unfolding small_queue_first
  by (simp_all add: accepted_def admitted_def reported_position_def is_autonomous_def queue_full_def
      report_mmsi_def report_at_def small_queue_client_def AISStreamClient_init_def
      AUTONOMOUS_SHIP_MMSI_LIST_def Let_def)

text \<open>
  Claim C6 as stated fails in its last part: with capacity 1, the second report removes
  the first entry from the full queue, and every counter of the statistics is still 0.
\<close>

theorem overflow_not_counted_counterexample:
  "queue_full (handle_position_report clock0 (report_at ''440326000'' 12.3 45.6 88 15.2) small_queue_client)
   \<and> message_queue (handle_position_report clock0 (report_at ''440326000'' 12.3 45.6 88 15.2)
        small_queue_client) = [''440326000'']
   \<and> message_queue (handle_position_report clock0 (report_at ''257646000'' 59.1 10.2 180 6)
        (handle_position_report clock0 (report_at ''440326000'' 12.3 45.6 88 15.2) small_queue_client))
      = [''257646000'']
   \<and> ais_stats (handle_position_report clock0 (report_at ''257646000'' 59.1 10.2 180 6)
        (handle_position_report clock0 (report_at ''440326000'' 12.3 45.6 88 15.2) small_queue_client))
      = \<lparr>messages_received = 0, messages_filtered = 0, parse_errors = 0, last_update = Some 0\<rparr>"
proof -
  let ?c1 = "handle_position_report clock0 (report_at ''440326000'' 12.3 45.6 88 15.2) small_queue_client"
  let ?r2 = "report_at ''257646000'' 59.1 10.2 180 6"
  have Q1: "message_queue ?c1 = [''440326000'']" "ais_stats ?c1 =
      \<lparr>messages_received = 0, messages_filtered = 0, parse_errors = 0, last_update = Some 0\<rparr>"
      "message_callback ?c1 = None"
    unfolding small_queue_first by (simp_all add: small_queue_client_def AISStreamClient_init_def)
  have Q2: "message_queue (handle_position_report clock0 ?r2 ?c1) = [''257646000'']"
    using accepted_full_queue(1)[OF small_queue_second_accepted, of clock0] Q1
    by (simp add: report_mmsi_def report_at_def)
  have S2: "ais_stats (handle_position_report clock0 ?r2 ?c1) =
      \<lparr>messages_received = 0, messages_filtered = 0, parse_errors = 0, last_update = Some 0\<rparr>"
  proof -
    have CB: "message_callback (snd (lookup_or_create clock0 ?r2 ?c1)) = None"
      unfolding lookup_or_create_callback by (rule Q1(3))
    have "ais_stats (publish clock0 ?r2 (fst (lookup_or_create clock0 ?r2 ?c1))
             (snd (lookup_or_create clock0 ?r2 ?c1))) =
          (ais_stats (snd (lookup_or_create clock0 ?r2 ?c1)))\<lparr>last_update := Some (t_stats clock0)\<rparr>"
      by (rule publish_stats_no_callback[OF CB])
    also have "\<dots> = \<lparr>messages_received = 0, messages_filtered = 0, parse_errors = 0, last_update = Some 0\<rparr>"
      unfolding lookup_or_create_frame Q1(2) by (simp add: clock0_def)
    finally show ?thesis
      unfolding handle_accepted[OF small_queue_second_accepted(1)] .
  qed
  from small_queue_second_accepted(2) Q1(1) Q2 S2 show ?thesis by simp
qed

text \<open>The same two reports on the client with capacity 1.\<close>

theorem queue_drops_head_without_count_witness:
  "accepted (handle_position_report clock0 (report_at ''440326000'' 12.3 45.6 88 15.2) small_queue_client)
     (report_at ''257646000'' 59.1 10.2 180 6)
   \<and> queue_full (handle_position_report clock0 (report_at ''440326000'' 12.3 45.6 88 15.2) small_queue_client)
   \<and> message_queue (handle_position_report clock0 (report_at ''257646000'' 59.1 10.2 180 6)
        (handle_position_report clock0 (report_at ''440326000'' 12.3 45.6 88 15.2) small_queue_client))
      = [''257646000'']
   \<and> (0::int) < 1
   \<and> int (length (message_queue (process_messages
        [Position_Report clock0 (report_at ''440326000'' 12.3 45.6 88 15.2),
         Position_Report clock0 (report_at ''257646000'' 59.1 10.2 180 6)]
        (AISStreamClient_init None 1 20 False)))) \<le> 1"
proof -
  let ?c1 = "handle_position_report clock0 (report_at ''440326000'' 12.3 45.6 88 15.2) small_queue_client"
  have Q1: "message_queue ?c1 = [''440326000'']"
    unfolding small_queue_first by simp
  from queue_drops_head_without_count[of ?c1 "report_at ''257646000'' 59.1 10.2 180 6" clock0 1
      "[Position_Report clock0 (report_at ''440326000'' 12.3 45.6 88 15.2),
         Position_Report clock0 (report_at ''257646000'' 59.1 10.2 180 6)]" None 20 False]
    small_queue_second_accepted Q1
  show ?thesis by (simp add: report_mmsi_def report_at_def)
qed

lemma connect_failed: "connect Connect_Failed c = c\<lparr>is_connected := False\<rparr>"
  by (simp add: connect_def)

lemma backoff_all_failed:
  "running c \<Longrightarrow> reconnect_attempts c + k = max_reconnect_attempts c \<Longrightarrow> 0 < k \<Longrightarrow>
     reconnect_with_backoff (replicate k Connect_Failed) c =
       Some (map (\<lambda>n. (n, min (2 ^ n) 60)) [reconnect_attempts c + 1 ..< max_reconnect_attempts c + 1],
             c\<lparr>reconnect_attempts := max_reconnect_attempts c, is_connected := False, running := False\<rparr>)"
proof (induction k arbitrary: c)
  case 0
  then show ?case by simp
next
  case (Suc k)
  let ?c2 = "c\<lparr>reconnect_attempts := reconnect_attempts c + 1, is_connected := False\<rparr>"
  have L: "reconnect_attempts c < max_reconnect_attempts c" using Suc.prems by simp
  show ?case
  proof (cases "k = 0")
    case True
    then have M: "max_reconnect_attempts c = reconnect_attempts c + 1" using Suc.prems by simp
    have R: "reconnect_with_backoff [] ?c2 = Some ([], ?c2\<lparr>running := False\<rparr>)"
      by (subst reconnect_with_backoff.simps) (simp add: M)
    show ?thesis
      using True Suc.prems L R
      by (subst reconnect_with_backoff.simps) (simp add: connect_failed Let_def M)
  next
    case False
    have P: "running ?c2" "reconnect_attempts ?c2 + k = max_reconnect_attempts ?c2" "0 < k"
      using Suc.prems False by simp_all
    show ?thesis
      using Suc.prems L Suc.IH[OF P] False
      by (subst reconnect_with_backoff.simps) (auto simp: connect_failed Let_def upt_conv_Cons)
  qed
qed


lemma count_filtered_conn:
  "running (count_filtered c) = running c" "is_connected (count_filtered c) = is_connected c"
  "reconnect_attempts (count_filtered c) = reconnect_attempts c"
  "max_reconnect_attempts (count_filtered c) = max_reconnect_attempts c"
  by (simp_all add: count_filtered_def)

lemma lookup_or_create_conn:
  "running (snd (lookup_or_create clk r c)) = running c"
  "is_connected (snd (lookup_or_create clk r c)) = is_connected c"
  "reconnect_attempts (snd (lookup_or_create clk r c)) = reconnect_attempts c"
  "max_reconnect_attempts (snd (lookup_or_create clk r c)) = max_reconnect_attempts c"
  by (simp_all add: lookup_or_create_def split: option.split)

lemma publish_conn:
  "running (publish clk r v c) = running c" "is_connected (publish clk r v c) = is_connected c"
  "reconnect_attempts (publish clk r v c) = reconnect_attempts c"
  "max_reconnect_attempts (publish clk r v c) = max_reconnect_attempts c"
  by (simp_all add: publish_def enqueue_def Let_def)

lemma handle_conn:
  "running (handle_position_report clk r c) = running c
   \<and> is_connected (handle_position_report clk r c) = is_connected c
   \<and> reconnect_attempts (handle_position_report clk r c) = reconnect_attempts c
   \<and> max_reconnect_attempts (handle_position_report clk r c) = max_reconnect_attempts c"
proof (cases "accepted c r")
  case True
  show ?thesis unfolding handle_accepted[OF True] by (simp add: publish_conn lookup_or_create_conn)
next
  case False
  from handle_rejected[OF False, of clk] show ?thesis
    by (auto simp: count_filtered_conn lookup_or_create_conn)
qed

lemma process_message_conn:
  "running (process_message f c) = running c
   \<and> is_connected (process_message f c) = is_connected c
   \<and> reconnect_attempts (process_message f c) = reconnect_attempts c
   \<and> max_reconnect_attempts (process_message f c) = max_reconnect_attempts c"
  by (cases f) (simp_all add: process_message_def Let_def handle_conn)

lemma process_messages_conn:
  "running (process_messages fs c) = running c
   \<and> is_connected (process_messages fs c) = is_connected c
   \<and> reconnect_attempts (process_messages fs c) = reconnect_attempts c
   \<and> max_reconnect_attempts (process_messages fs c) = max_reconnect_attempts c"
  by (induction fs arbitrary: c) (simp_all add: process_message_conn)

lemma connect_session:
  "reconnect_attempts (connect (Session frames e) c) = 0"
  "running (connect (Session frames e) c) = running c"
  "max_reconnect_attempts (connect (Session frames e) c) = max_reconnect_attempts c"
  "running c \<Longrightarrow> is_connected (connect (Session frames e) c) = (e = Ended_Normally)"
  by (cases e; simp add: connect_def Let_def process_messages_conn)+

lemma backoff_then_connected:
  "running c \<Longrightarrow> reconnect_attempts c + k < max_reconnect_attempts c \<Longrightarrow>
     \<exists>c'. reconnect_with_backoff (replicate k Connect_Failed @ [Session frames Ended_Normally]) c =
            Some (map (\<lambda>n. (n, min (2 ^ n) 60)) [reconnect_attempts c + 1 ..< reconnect_attempts c + k + 2], c')
        \<and> reconnect_attempts c' = 0 \<and> is_connected c' \<and> running c'"
proof (induction k arbitrary: c)
  case 0
  let ?c1 = "c\<lparr>reconnect_attempts := reconnect_attempts c + 1\<rparr>"
  have "is_connected (connect (Session frames Ended_Normally) ?c1)"
       "reconnect_attempts (connect (Session frames Ended_Normally) ?c1) = 0"
       "running (connect (Session frames Ended_Normally) ?c1)"
    using 0 by (simp_all add: connect_session)
  with 0 show ?case
    by (subst reconnect_with_backoff.simps) (simp add: Let_def)
next
  case (Suc k)
  let ?c2 = "c\<lparr>reconnect_attempts := reconnect_attempts c + 1, is_connected := False\<rparr>"
  have P: "running ?c2" "reconnect_attempts ?c2 + k < max_reconnect_attempts ?c2"
    using Suc.prems by simp_all
  define rest where "rest = map (\<lambda>n. (n, min (2 ^ n) (60::nat)))
      [reconnect_attempts ?c2 + 1 ..< reconnect_attempts ?c2 + k + 2]"
  from Suc.IH[OF P] obtain c' where
    I: "reconnect_with_backoff (replicate k Connect_Failed @ [Session frames Ended_Normally]) ?c2 =
            Some (rest, c')"
       "reconnect_attempts c' = 0" "is_connected c'" "running c'"
    unfolding rest_def by blast
  have RA: "reconnect_attempts ?c2 = reconnect_attempts c + 1" by simp
  have U: "map (\<lambda>n. (n, min (2 ^ n) (60::nat)))
             [reconnect_attempts c + 1 ..< reconnect_attempts c + Suc k + 2] =
           (reconnect_attempts c + 1, min (2 ^ (reconnect_attempts c + 1)) 60) # rest"
  proof -
    have "[reconnect_attempts c + 1 ..< reconnect_attempts c + Suc k + 2] =
          (reconnect_attempts c + 1) # [Suc (reconnect_attempts c + 1) ..< reconnect_attempts c + Suc k + 2]"
      by (rule upt_conv_Cons) simp
    moreover have "[Suc (reconnect_attempts c + 1) ..< reconnect_attempts c + Suc k + 2] =
          [reconnect_attempts c + 1 + 1 ..< reconnect_attempts c + 1 + k + 2]"
      by simp
    ultimately have "[reconnect_attempts c + 1 ..< reconnect_attempts c + Suc k + 2] =
          (reconnect_attempts c + 1) # [reconnect_attempts c + 1 + 1 ..< reconnect_attempts c + 1 + k + 2]"
      by (simp only:)
    then show ?thesis unfolding rest_def RA by (simp only: list.map)
  qed
  have L: "reconnect_attempts c < max_reconnect_attempts c" using Suc.prems by simp
  have "reconnect_with_backoff (replicate (Suc k) Connect_Failed @ [Session frames Ended_Normally]) c =
          Some ((reconnect_attempts c + 1, min (2 ^ (reconnect_attempts c + 1)) 60) # rest, c')"
    using Suc.prems(1) L I(1)
    by (subst reconnect_with_backoff.simps) (simp add: connect_failed Let_def)
  with I(2,3,4) show ?case unfolding U by blast
qed

lemma backoff_trace:
  "reconnect_with_backoff outs c = Some (tr, c') \<Longrightarrow> \<forall>(n, d) \<in> set tr. d = min (2 ^ n) 60"
proof (induction outs arbitrary: c tr c')
  case Nil
  then show ?case
    by (subst (asm) reconnect_with_backoff.simps) (auto split: if_splits)
next
  case (Cons out outs)
  from Cons.prems show ?case
    by (subst (asm) reconnect_with_backoff.simps)
       (auto simp: Let_def split: if_splits option.splits dest!: Cons.IH)
qed

lemma schedule_10: "map (\<lambda>n. (n, min (2 ^ n) 60)) [1 ..< 11] =
    [(1, 2), (2, 4), (3, 8), (4, 16), (5, 32), (6, 60), (7, 60), (8, 60), (9, 60), (10::nat, 60::nat)]"
  by (simp add: upt_rec)

lemma handle_not_admitted:
  assumes "\<not> admitted c r"
  shows "handle_position_report clk r c = count_filtered c"
  using assms unfolding handle_position_report_def admitted_def by auto

lemma handle_null_position:
  assumes "admitted c r" "reported_position c r = (0, 0)"
  shows "handle_position_report clk r c = count_filtered (snd (lookup_or_create clk r c))"
proof -
  have "new_position r (fst (lookup_or_create clk r c)) = (0, 0)"
    using assms(2) by (simp add: new_position_lookup)
  with assms(1) show ?thesis
    unfolding handle_position_report_def admitted_def Let_def
    by (auto simp: case_prod_beta)
qed

lemma map_of_lookup_or_create:
  "map_of (vessel_cache (snd (lookup_or_create clk r c))) =
     (case map_of (vessel_cache c) (report_mmsi r) of
        Some v \<Rightarrow> map_of (vessel_cache c)
      | None \<Rightarrow> (map_of (vessel_cache c))(report_mmsi r \<mapsto> new_vessel clk c r))"
proof (cases "map_of (vessel_cache c) (report_mmsi r)")
  case None
  then show ?thesis
    by (auto simp: lookup_or_create_def map_add_def fun_eq_iff split: option.split)
next
  case (Some v)
  then show ?thesis by (simp add: lookup_or_create_def)
qed

lemma course_speed_new: "course_speed (new_vessel clk c r) = (0, 0)"
  by (simp add: course_speed_def new_vessel_def)

lemma course_speed_updated:
  "course_speed (updated_vessel clk r v) =
     ((case Cog r of None \<Rightarrow> fst (course_speed v) | Some x \<Rightarrow> x),
      (case Sog r of None \<Rightarrow> snd (course_speed v) | Some x \<Rightarrow> x))"
  by (simp add: course_speed_def updated_vessel_def split: option.split)

lemma tracks_lookup_or_create:
  assumes "tracks c m"
  shows "tracks (snd (lookup_or_create clk r c)) m"
    and "course_speed (fst (lookup_or_create clk r c)) = held m (report_mmsi r)"
proof -
  show "tracks (snd (lookup_or_create clk r c)) m"
  proof (cases "map_of (vessel_cache c) (report_mmsi r)")
    case None
    moreover from assms have "m (report_mmsi r) \<noteq> None \<longrightarrow> map_of (vessel_cache c) (report_mmsi r) \<noteq> None"
      unfolding tracks_def by blast
    ultimately have "m (report_mmsi r) = None" by blast
    with None assms show ?thesis
      unfolding tracks_def map_of_lookup_or_create
      by (auto simp: course_speed_new held_def)
  next
    case (Some v)
    with assms show ?thesis unfolding tracks_def map_of_lookup_or_create by simp
  qed
  show "course_speed (fst (lookup_or_create clk r c)) = held m (report_mmsi r)"
  proof (cases "map_of (vessel_cache c) (report_mmsi r)")
    case None
    moreover from assms have "m (report_mmsi r) \<noteq> None \<longrightarrow> map_of (vessel_cache c) (report_mmsi r) \<noteq> None"
      unfolding tracks_def by blast
    ultimately have "m (report_mmsi r) = None" by blast
    with None show ?thesis by (simp add: lookup_or_create_vessel course_speed_new held_def)
  next
    case (Some v)
    with assms show ?thesis by (simp add: lookup_or_create_vessel tracks_def)
  qed
qed

lemma handle_tracks:
  assumes "tracks c m"
  shows "tracks (handle_position_report clk r c) (record_report c r m)"
proof (cases "accepted c r")
  case True
  let ?v = "fst (lookup_or_create clk r c)" and ?c1 = "snd (lookup_or_create clk r c)"
  note T = tracks_lookup_or_create[OF assms, of clk r]
  have M: "map_of (vessel_cache (publish clk r ?v ?c1)) =
           (map_of (vessel_cache ?c1))(report_mmsi r \<mapsto> updated_vessel clk r ?v)"
    by (simp add: publish_cache update_conv')
  have C: "course_speed (updated_vessel clk r ?v) =
     ((case Cog r of None \<Rightarrow> fst (held m (report_mmsi r)) | Some x \<Rightarrow> x),
      (case Sog r of None \<Rightarrow> snd (held m (report_mmsi r)) | Some x \<Rightarrow> x))"
    by (simp add: course_speed_updated T(2) split: option.split)
  show ?thesis
    unfolding handle_accepted[OF True]
    using T(1) True C
    by (auto simp: tracks_def M record_report_def held_def)
next
  case False
  then have R: "record_report c r m = m" by (simp add: record_report_def)
  show ?thesis
  proof (cases "admitted c r")
    case True
    with False have "reported_position c r = (0, 0)" by (simp add: accepted_def)
    from handle_null_position[OF True this, of clk] tracks_lookup_or_create(1)[OF assms, of clk r]
    show ?thesis unfolding R by (simp add: tracks_def count_filtered_frame)
  next
    case False
    from handle_not_admitted[OF False, of clk] assms
    show ?thesis unfolding R by (simp add: tracks_def count_filtered_frame)
  qed
qed

lemma accepted_stats: "accepted (c\<lparr>ais_stats := x\<rparr>) r = accepted c r"
  by (simp add: accepted_def admitted_def reported_position_def is_autonomous_def
      is_cargo_tanker_type_def)

lemma record_report_stats: "record_report (c\<lparr>ais_stats := x\<rparr>) r m = record_report c r m"
  by (simp add: record_report_def accepted_stats)

lemma process_message_tracks:
  assumes "tracks c m"
  shows "tracks (process_message f c)
           (case f of Position_Report clk r \<Rightarrow> record_report c r m | Invalid_JSON \<Rightarrow> m | Other_Type \<Rightarrow> m)"
proof (cases f)
  case (Position_Report clk r)
  let ?c1 = "c\<lparr>ais_stats := (ais_stats c)\<lparr>messages_received := messages_received (ais_stats c) + 1\<rparr>\<rparr>"
  have "tracks ?c1 m" using assms by (simp add: tracks_def)
  from handle_tracks[OF this, of clk r] Position_Report show ?thesis
    by (simp add: process_message_def Let_def record_report_stats)
qed (use assms in \<open>simp_all add: process_message_def Let_def tracks_def\<close>)

lemma process_messages_tracks:
  "tracks c m \<Longrightarrow> tracks (process_messages fs c) (last_accepted_course_speed fs c m)"
proof (induction fs arbitrary: c m)
  case Nil
  then show ?case by simp
next
  case (Cons f fs)
  from Cons.IH[OF process_message_tracks[OF Cons.prems, of f]] show ?case by simp
qed

lemma init_tracks: "tracks (AISStreamClient_init cb q mv fb) Map.empty"
  by (simp add: tracks_def AISStreamClient_init_def)


text \<open>
  Claim C2, as amended. After any sequence of frames on a new client, every cached
  record holds as course and speed the \<open>Cog\<close> and \<open>Sog\<close> of the last accepted position
  report of its vessel, exactly as received, without normalisation or clamping (an
  absent value keeps the one before, and the values before the first accepted report
  are 0); reports that are not accepted and other frames leave them as they are. A
  single accepted report stores its \<open>Cog\<close> and \<open>Sog\<close> in the record of its vessel. Hence
  when every report has \<open>Cog\<close> in \<open>[0, 360)\<close> and \<open>Sog \<ge> 0\<close>, every cached record has its
  course in \<open>[0, 360)\<close> and its speed \<open>\<ge> 0\<close>.
\<close>

theorem cached_course_speed_last_accepted:
  "(map_of (vessel_cache (process_messages fs (AISStreamClient_init cb q mv fb))) k = Some v \<longrightarrow>
      course_speed v =
        held (last_accepted_course_speed fs (AISStreamClient_init cb q mv fb) Map.empty) k)
   \<and> (accepted c r \<longrightarrow>
      map_option course (map_of (vessel_cache (handle_position_report clk r c)) (report_mmsi r)) =
        Some (case Cog r of Some x \<Rightarrow> x
              | None \<Rightarrow> (case map_of (vessel_cache c) (report_mmsi r) of Some w \<Rightarrow> course w | None \<Rightarrow> 0))
    \<and> map_option speed (map_of (vessel_cache (handle_position_report clk r c)) (report_mmsi r)) =
        Some (case Sog r of Some x \<Rightarrow> x
              | None \<Rightarrow> (case map_of (vessel_cache c) (report_mmsi r) of Some w \<Rightarrow> speed w | None \<Rightarrow> 0)))
   \<and> (list_all frame_in_range fs \<longrightarrow>
        list_all (\<lambda>kv. course_speed_in_range (snd kv))
          (vessel_cache (process_messages fs (AISStreamClient_init cb q mv fb))))"
proof -
  have T: "tracks (process_messages fs (AISStreamClient_init cb q mv fb))
             (last_accepted_course_speed fs (AISStreamClient_init cb q mv fb) Map.empty)"
    by (rule process_messages_tracks[OF init_tracks])
  have A: "map_of (vessel_cache (process_messages fs (AISStreamClient_init cb q mv fb))) k = Some v \<longrightarrow>
      course_speed v =
        held (last_accepted_course_speed fs (AISStreamClient_init cb q mv fb) Map.empty) k"
    using T unfolding tracks_def by blast
  from A accepted_course_speed[of c r clk]
    process_messages_in_range[OF init_in_range, of fs cb q mv fb]
  show ?thesis by (simp add: cache_in_range_def)
qed

lemma two_reports_cache:
  "map_option course_speed (map_of (vessel_cache (process_messages
       [Position_Report clock0 (report_at ''440326000'' 12.3 45.6 88 15.2),
        Position_Report clock0 (report_at ''440326000'' 0 0 200 3)]
       (AISStreamClient_init None 1000 20 False))) ''440326000'') = Some (88, 15.2)"
  by (simp add: process_message_def course_speed_def ais_eval)

lemma two_reports_table:
  "last_accepted_course_speed
       [Position_Report clock0 (report_at ''440326000'' 12.3 45.6 88 15.2),
        Position_Report clock0 (report_at ''440326000'' 0 0 200 3)]
       (AISStreamClient_init None 1000 20 False) Map.empty ''440326000'' = Some (88, 15.2)"
  by (simp add: record_report_def accepted_def admitted_def reported_position_def held_def
      process_message_def ais_eval)


text \<open>
  The two reports of scenario 4 with a course and a speed in the second: the report at
  (12.3, 45.6) with course 88 and speed 15.2 is accepted, the report at (0, 0) with
  course 200 and speed 3 is not, and the record keeps 88 and 15.2.
\<close>

theorem cached_course_speed_last_accepted_witness:
  "(\<exists>v. map_of (vessel_cache (process_messages
       [Position_Report clock0 (report_at ''440326000'' 12.3 45.6 88 15.2),
        Position_Report clock0 (report_at ''440326000'' 0 0 200 3)]
       (AISStreamClient_init None 1000 20 False))) ''440326000'' = Some v
      \<and> course_speed v = (88, 15.2)
      \<and> held (last_accepted_course_speed
           [Position_Report clock0 (report_at ''440326000'' 12.3 45.6 88 15.2),
            Position_Report clock0 (report_at ''440326000'' 0 0 200 3)]
           (AISStreamClient_init None 1000 20 False) Map.empty) ''440326000'' = (88, 15.2))
   \<and> accepted default_client (report_at ''440326000'' 12.3 45.6 88 15.2)
   \<and> map_option course (map_of (vessel_cache
        (handle_position_report clock0 (report_at ''440326000'' 12.3 45.6 88 15.2) default_client))
        ''440326000'') = Some 88
   \<and> map_option speed (map_of (vessel_cache
        (handle_position_report clock0 (report_at ''440326000'' 12.3 45.6 88 15.2) default_client))
        ''440326000'') = Some 15.2
   \<and> list_all frame_in_range
       [Position_Report clock0 (report_at ''440326000'' 12.3 45.6 88 15.2),
        Position_Report clock0 (report_at ''440326000'' 0 0 200 3)]
   \<and> list_all (\<lambda>kv. course_speed_in_range (snd kv))
        (vessel_cache (process_messages
          [Position_Report clock0 (report_at ''440326000'' 12.3 45.6 88 15.2),
           Position_Report clock0 (report_at ''440326000'' 0 0 200 3)]
          (AISStreamClient_init None 1000 20 False)))"
proof -
  let ?fs = "[Position_Report clock0 (report_at ''440326000'' 12.3 45.6 88 15.2),
              Position_Report clock0 (report_at ''440326000'' 0 0 200 3)]"
  from two_reports_cache obtain v where
    V: "map_of (vessel_cache (process_messages ?fs (AISStreamClient_init None 1000 20 False)))
          ''440326000'' = Some v"
    by blast
  have H: "held (last_accepted_course_speed ?fs (AISStreamClient_init None 1000 20 False) Map.empty)
             ''440326000'' = (88, 15.2)"
    using two_reports_table by (simp add: held_def)
  have F: "list_all frame_in_range ?fs"
    by (simp add: frame_in_range_def report_in_range_def report_at_def)
  note X = cached_course_speed_last_accepted[of ?fs None 1000 20 False "''440326000''" v
      default_client "report_at ''440326000'' 12.3 45.6 88 15.2" clock0]
  from X V have C: "course_speed v = (88, 15.2)" using H by simp
  from X accepted_first_report have S:
    "map_option course (map_of (vessel_cache
        (handle_position_report clock0 (report_at ''440326000'' 12.3 45.6 88 15.2) default_client))
        ''440326000'') = Some 88"
    "map_option speed (map_of (vessel_cache
        (handle_position_report clock0 (report_at ''440326000'' 12.3 45.6 88 15.2) default_client))
        ''440326000'') = Some 15.2"
    by (simp_all add: report_at_def report_mmsi_def)
  from X F have R: "list_all (\<lambda>kv. course_speed_in_range (snd kv))
        (vessel_cache (process_messages ?fs (AISStreamClient_init None 1000 20 False)))"
    by blast
  from V C H accepted_first_report S F R show ?thesis by blast
qed

lemma backoff_dropped_none:
  "running c \<Longrightarrow> reconnect_attempts c < max_reconnect_attempts c \<Longrightarrow>
   \<forall>out \<in> set outs. \<exists>fs. out = Session fs Closed_With_Error \<Longrightarrow>
     reconnect_with_backoff outs c = None"
proof (induction outs arbitrary: c)
  case Nil
  then show ?case by (subst reconnect_with_backoff.simps) simp
next
  case (Cons out outs)
  from Cons.prems(3) obtain fs where O: "out = Session fs Closed_With_Error" by auto
  let ?c1 = "c\<lparr>reconnect_attempts := reconnect_attempts c + 1\<rparr>"
  let ?c2 = "connect out ?c1"
  have R: "running ?c1" using Cons.prems(1) by simp
  have P: "running ?c2" "reconnect_attempts ?c2 < max_reconnect_attempts ?c2" "\<not> is_connected ?c2"
    using Cons.prems(1,2) connect_session(4)[OF R, of fs Closed_With_Error]
    by (simp_all add: O connect_session)
  have "reconnect_with_backoff outs ?c2 = None"
    using Cons.IH[OF P(1) P(2)] Cons.prems(3) by simp
  with Cons.prems(1,2) P(3) show ?case
    by (subst reconnect_with_backoff.simps) (simp add: Let_def)
qed

lemma backoff_dropped_then_connected:
  "running c \<Longrightarrow> reconnect_attempts c < max_reconnect_attempts c \<Longrightarrow>
     \<exists>c'. reconnect_with_backoff
            (map (\<lambda>fs. Session fs Closed_With_Error) fss @ [Session frames Ended_Normally]) c =
            Some ((reconnect_attempts c + 1, min (2 ^ (reconnect_attempts c + 1)) 60)
                    # replicate (length fss) (1, 2), c')
        \<and> reconnect_attempts c' = 0 \<and> is_connected c' \<and> running c'"
proof (induction fss arbitrary: c)
  case Nil
  from backoff_then_connected[of c 0 frames] Nil show ?case by simp
next
  case (Cons fs fss)
  let ?c1 = "c\<lparr>reconnect_attempts := reconnect_attempts c + 1\<rparr>"
  let ?c2 = "connect (Session fs Closed_With_Error) ?c1"
  have R: "running ?c1" using Cons.prems(1) by simp
  have P: "running ?c2" "reconnect_attempts ?c2 < max_reconnect_attempts ?c2" "\<not> is_connected ?c2"
          "reconnect_attempts ?c2 = 0"
    using Cons.prems(1,2) connect_session(4)[OF R, of fs Closed_With_Error]
    by (simp_all add: connect_session)
  from Cons.IH[OF P(1) P(2)] obtain c' where
    I: "reconnect_with_backoff
            (map (\<lambda>fs. Session fs Closed_With_Error) fss @ [Session frames Ended_Normally]) ?c2 =
            Some ((1, 2) # replicate (length fss) (1, 2), c')"
       "reconnect_attempts c' = 0" "is_connected c'" "running c'"
    unfolding P(4) by auto
  have "reconnect_with_backoff
            (map (\<lambda>fs. Session fs Closed_With_Error) (fs # fss) @ [Session frames Ended_Normally]) c =
          Some ((reconnect_attempts c + 1, min (2 ^ (reconnect_attempts c + 1)) 60)
                    # (1, 2) # replicate (length fss) (1, 2), c')"
    using Cons.prems(1,2) P(3) I(1)
    by (subst reconnect_with_backoff.simps) (simp add: Let_def)
  with I(2,3,4) show ?case by auto
qed


text \<open>
  Claim C5, as amended. Every sleep of \<open>reconnect_with_backoff\<close> is \<open>min(2^n, 60)\<close> seconds
  for the attempt number \<open>n\<close>, which is incremented at the start of each attempt. The
  counter is set to 0 as soon as a connection opens, before the subscription is sent,
  and a connect that cannot open the connection leaves it as it is. From a running
  client with a budget of 10, consecutive attempts that cannot open the connection use
  the budget up: after the attempts \<open>n + 1, ..., 10\<close> the client has \<open>running\<close> false. A
  connection that opens and lasts ends the loop with the counter at 0 and the client
  running. A connection that opens and then fails does not count towards the budget:
  after any number of them the loop is still running, and every retry after one is
  attempt 1 with a sleep of 2 seconds.
\<close>

theorem reconnect_backoff_budget:
  "(running c \<and> max_reconnect_attempts c = 10 \<and> reconnect_attempts c < 10 \<longrightarrow>
      reconnect_with_backoff (replicate (10 - reconnect_attempts c) Connect_Failed) c =
        Some (map (\<lambda>n. (n, min (2 ^ n) 60)) [reconnect_attempts c + 1 ..< 11],
              c\<lparr>reconnect_attempts := 10, is_connected := False, running := False\<rparr>))
   \<and> (running c \<and> reconnect_attempts c + k < max_reconnect_attempts c \<longrightarrow>
        (\<exists>c'. reconnect_with_backoff (replicate k Connect_Failed @ [Session frames Ended_Normally]) c =
                 Some (map (\<lambda>n. (n, min (2 ^ n) 60))
                         [reconnect_attempts c + 1 ..< reconnect_attempts c + k + 2], c')
             \<and> reconnect_attempts c' = 0 \<and> is_connected c' \<and> running c'))
   \<and> (running c \<and> reconnect_attempts c < max_reconnect_attempts c
        \<and> (\<forall>out \<in> set outs. \<exists>fs. out = Session fs Closed_With_Error) \<longrightarrow>
        reconnect_with_backoff outs c = None)
   \<and> (running c \<and> reconnect_attempts c < max_reconnect_attempts c \<longrightarrow>
        (\<exists>c'. reconnect_with_backoff
                 (map (\<lambda>fs. Session fs Closed_With_Error) fss @ [Session frames Ended_Normally]) c =
                 Some ((reconnect_attempts c + 1, min (2 ^ (reconnect_attempts c + 1)) 60)
                         # replicate (length fss) (1, 2), c')
             \<and> reconnect_attempts c' = 0 \<and> is_connected c' \<and> running c'))
   \<and> (reconnect_with_backoff outs' c = Some (tr, c'') \<longrightarrow>
        (\<forall>(n, d) \<in> set tr. d = min (2 ^ n) 60))
   \<and> reconnect_attempts (connect (Session frames e) c) = 0
   \<and> (running c \<longrightarrow> is_connected (connect (Session frames e) c) = (e = Ended_Normally))
   \<and> reconnect_attempts (connect Connect_Failed c) = reconnect_attempts c
   \<and> \<not> is_connected (connect Connect_Failed c)"
proof -
  have A: "running c \<and> max_reconnect_attempts c = 10 \<and> reconnect_attempts c < 10 \<longrightarrow>
      reconnect_with_backoff (replicate (10 - reconnect_attempts c) Connect_Failed) c =
        Some (map (\<lambda>n. (n, min (2 ^ n) 60)) [reconnect_attempts c + 1 ..< 11],
              c\<lparr>reconnect_attempts := 10, is_connected := False, running := False\<rparr>)"
  proof
    assume H: "running c \<and> max_reconnect_attempts c = 10 \<and> reconnect_attempts c < 10"
    then have "reconnect_attempts c + (10 - reconnect_attempts c) = max_reconnect_attempts c"
      "0 < 10 - reconnect_attempts c"
      by simp_all
    from backoff_all_failed[OF _ this] H
    show "reconnect_with_backoff (replicate (10 - reconnect_attempts c) Connect_Failed) c =
        Some (map (\<lambda>n. (n, min (2 ^ n) 60)) [reconnect_attempts c + 1 ..< 11],
              c\<lparr>reconnect_attempts := 10, is_connected := False, running := False\<rparr>)"
      by simp
  qed
  have B: "running c \<and> reconnect_attempts c + k < max_reconnect_attempts c \<longrightarrow>
        (\<exists>c'. reconnect_with_backoff (replicate k Connect_Failed @ [Session frames Ended_Normally]) c =
                 Some (map (\<lambda>n. (n, min (2 ^ n) 60))
                         [reconnect_attempts c + 1 ..< reconnect_attempts c + k + 2], c')
             \<and> reconnect_attempts c' = 0 \<and> is_connected c' \<and> running c')"
    using backoff_then_connected[of c k frames] by blast
  have C: "running c \<and> reconnect_attempts c < max_reconnect_attempts c
        \<and> (\<forall>out \<in> set outs. \<exists>fs. out = Session fs Closed_With_Error) \<longrightarrow>
        reconnect_with_backoff outs c = None"
    using backoff_dropped_none[of c outs] by blast
  have D: "running c \<and> reconnect_attempts c < max_reconnect_attempts c \<longrightarrow>
        (\<exists>c'. reconnect_with_backoff
                 (map (\<lambda>fs. Session fs Closed_With_Error) fss @ [Session frames Ended_Normally]) c =
                 Some ((reconnect_attempts c + 1, min (2 ^ (reconnect_attempts c + 1)) 60)
                         # replicate (length fss) (1, 2), c')
             \<and> reconnect_attempts c' = 0 \<and> is_connected c' \<and> running c')"
    using backoff_dropped_then_connected[of c fss frames] by blast
  have E: "reconnect_with_backoff outs' c = Some (tr, c'') \<longrightarrow>
        (\<forall>(n, d) \<in> set tr. d = min (2 ^ n) 60)"
    using backoff_trace by blast
  have F: "reconnect_attempts (connect (Session frames e) c) = 0"
       "running c \<longrightarrow> is_connected (connect (Session frames e) c) = (e = Ended_Normally)"
       "reconnect_attempts (connect Connect_Failed c) = reconnect_attempts c"
       "\<not> is_connected (connect Connect_Failed c)"
    by (simp_all add: connect_session connect_failed)
  from A B C D E F show ?thesis by blast
qed

lemma replicate_11: "replicate 11 x = x # replicate 10 x"
  by (simp add: numeral_eq_Suc)

text \<open>
  Claim C5 as stated fails: after ten consecutive failures in which the connection
  opens and closes with an error, the loop is still running; when the eleventh
  connection lasts, the client has slept 2 seconds eleven times and is running.
\<close>

theorem dropped_sessions_never_stop_counterexample:
  "reconnect_with_backoff (replicate 10 (Session [] Closed_With_Error))
      (default_client\<lparr>running := True\<rparr>) = None
   \<and> map_option fst (reconnect_with_backoff
        (replicate 10 (Session [] Closed_With_Error) @ [Session [] Ended_Normally])
        (default_client\<lparr>running := True\<rparr>)) = Some (replicate 11 (1, 2))
   \<and> map_option (running \<circ> snd) (reconnect_with_backoff
        (replicate 10 (Session [] Closed_With_Error) @ [Session [] Ended_Normally])
        (default_client\<lparr>running := True\<rparr>)) = Some True"
proof -
  let ?c = "default_client\<lparr>running := True\<rparr>"
  have H: "running ?c" "reconnect_attempts ?c < max_reconnect_attempts ?c" "reconnect_attempts ?c = 0"
    by (simp_all add: default_client_def AISStreamClient_init_def)
  have N: "reconnect_with_backoff (replicate 10 (Session [] Closed_With_Error)) ?c = None"
    by (rule backoff_dropped_none[OF H(1) H(2)]) simp
  have M: "map (\<lambda>fs. Session fs Closed_With_Error) (replicate 10 []) =
           replicate 10 (Session [] Closed_With_Error)"
    by (simp add: map_replicate)
  from backoff_dropped_then_connected[OF H(1) H(2), of "replicate 10 []" "[]"] obtain c' where
    S: "reconnect_with_backoff
          (replicate 10 (Session [] Closed_With_Error) @ [Session [] Ended_Normally]) ?c =
        Some ((reconnect_attempts ?c + 1, min (2 ^ (reconnect_attempts ?c + 1)) 60)
                # replicate (length (replicate 10 ([]::frame list))) (1, 2), c')"
       "running c'"
    unfolding M by blast
  have T: "(reconnect_attempts ?c + 1, min (2 ^ (reconnect_attempts ?c + 1)) 60)
                # replicate (length (replicate 10 ([]::frame list))) (1, 2) = replicate 11 (1::nat, 2::nat)"
    unfolding H(3) replicate_11 by simp
  from N S T show ?thesis by simp
qed


text \<open>
  The default client after \<open>start\<close>: ten attempts that cannot open the connection; two
  of them before a connection; ten connections that fail after opening; two of them
  before a connection that lasts.
\<close>

theorem reconnect_backoff_budget_witness:
  "running (default_client\<lparr>running := True\<rparr>)
   \<and> max_reconnect_attempts (default_client\<lparr>running := True\<rparr>) = 10
   \<and> reconnect_attempts (default_client\<lparr>running := True\<rparr>) < 10
   \<and> reconnect_with_backoff (replicate 10 Connect_Failed) (default_client\<lparr>running := True\<rparr>) =
        Some ([(1, 2), (2, 4), (3, 8), (4, 16), (5, 32), (6, 60), (7, 60), (8, 60), (9, 60), (10, 60)],
              default_client\<lparr>reconnect_attempts := 10, is_connected := False, running := False\<rparr>)
   \<and> (\<exists>c'. reconnect_with_backoff [Connect_Failed, Connect_Failed, Session [] Ended_Normally]
              (default_client\<lparr>running := True\<rparr>) = Some ([(1, 2), (2, 4), (3, 8)], c')
         \<and> reconnect_attempts c' = 0 \<and> is_connected c' \<and> running c')
   \<and> reconnect_with_backoff (replicate 10 (Session [] Closed_With_Error))
        (default_client\<lparr>running := True\<rparr>) = None
   \<and> (\<exists>c'. reconnect_with_backoff
              [Session [] Closed_With_Error, Session [] Closed_With_Error, Session [] Ended_Normally]
              (default_client\<lparr>running := True\<rparr>) = Some ([(1, 2), (1, 2), (1, 2)], c')
         \<and> reconnect_attempts c' = 0 \<and> is_connected c' \<and> running c')
   \<and> list_all (\<lambda>(n, d). d = min (2 ^ n) 60)
        [(1, 2), (2, 4), (3, 8), (4, 16), (5, 32), (6, 60), (7, 60), (8, 60), (9, 60), (10::nat, 60::nat)]"
proof -
  let ?c = "default_client\<lparr>running := True\<rparr>"
  let ?tr = "[(1, 2), (2, 4), (3, 8), (4, 16), (5, 32), (6, 60), (7, 60), (8, 60), (9, 60), (10::nat, 60::nat)]"
  let ?end = "default_client\<lparr>reconnect_attempts := 10, is_connected := False, running := False\<rparr>"
  have H: "running ?c" "max_reconnect_attempts ?c = 10" "reconnect_attempts ?c = 0"
    by (simp_all add: default_client_def AISStreamClient_init_def)
  note X = reconnect_backoff_budget[of ?c 2 "[]" "replicate 10 (Session [] Closed_With_Error)"
      "[[], []]" "replicate 10 Connect_Failed" ?tr ?end Ended_Normally]
  have P1: "reconnect_with_backoff (replicate 10 Connect_Failed) ?c = Some (?tr, ?end)"
  proof -
    from X H have "reconnect_with_backoff (replicate (10 - reconnect_attempts ?c) Connect_Failed) ?c =
        Some (map (\<lambda>n. (n, min (2 ^ n) 60)) [reconnect_attempts ?c + 1 ..< 11],
              ?c\<lparr>reconnect_attempts := 10, is_connected := False, running := False\<rparr>)"
      by simp
    then show ?thesis unfolding H(3) using schedule_10 by simp
  qed
  have R: "replicate 2 Connect_Failed @ [Session [] Ended_Normally] =
           [Connect_Failed, Connect_Failed, Session [] Ended_Normally]"
    by (simp add: numeral_2_eq_2)
  have L: "map (\<lambda>n. (n, min (2 ^ n) 60)) [0 + 1 ..< 0 + 2 + 2] = [(1, 2), (2, 4), (3::nat, 8::nat)]"
    by (simp add: upt_rec)
  have P2: "\<exists>c'. reconnect_with_backoff [Connect_Failed, Connect_Failed, Session [] Ended_Normally] ?c =
               Some ([(1, 2), (2, 4), (3, 8)], c')
         \<and> reconnect_attempts c' = 0 \<and> is_connected c' \<and> running c'"
  proof -
    from X H have "\<exists>c'. reconnect_with_backoff (replicate 2 Connect_Failed @ [Session [] Ended_Normally]) ?c =
                 Some (map (\<lambda>n. (n, min (2 ^ n) 60))
                         [reconnect_attempts ?c + 1 ..< reconnect_attempts ?c + 2 + 2], c')
             \<and> reconnect_attempts c' = 0 \<and> is_connected c' \<and> running c'"
      by simp
    then show ?thesis unfolding H(3) R L .
  qed
  have P3: "reconnect_with_backoff (replicate 10 (Session [] Closed_With_Error)) ?c = None"
    using X H by simp
  have P4: "\<exists>c'. reconnect_with_backoff
              [Session [] Closed_With_Error, Session [] Closed_With_Error, Session [] Ended_Normally] ?c =
               Some ([(1, 2), (1, 2), (1, 2)], c')
         \<and> reconnect_attempts c' = 0 \<and> is_connected c' \<and> running c'"
  proof -
    from X H have "\<exists>c'. reconnect_with_backoff
                 (map (\<lambda>fs. Session fs Closed_With_Error) [[], []] @ [Session [] Ended_Normally]) ?c =
                 Some ((reconnect_attempts ?c + 1, min (2 ^ (reconnect_attempts ?c + 1)) 60)
                         # replicate (length [[]::frame list, []]) (1, 2), c')
             \<and> reconnect_attempts c' = 0 \<and> is_connected c' \<and> running c'"
      by simp
    then show ?thesis unfolding H(3) by (simp add: numeral_2_eq_2)
  qed
  have "\<forall>(n, d) \<in> set ?tr. d = min (2 ^ n) 60"
    using X P1 by blast
  then have P5: "list_all (\<lambda>(n, d). d = min (2 ^ n) 60) ?tr"
    unfolding list_all_iff .
  from H P1 P2 P3 P4 P5 show ?thesis by simp
qed

end
